theory Spec2Isabelle
  imports Main
begin

section \<open>Shared types\<close>

text \<open>
  The repository is a TypeScript program.  Its source files are modelled one after the
  other; every definition below names the source function it embeds.  Objects that the
  program shares by reference and mutates (the per-target \<open>OutputState\<close>, the
  postprocess workers) live in explicit stores indexed by references.
\<close>

datatype RunMode = make | hot

datatype CompilationMode = standard | debug | optimize

text \<open>
  Types of the modules \<open>Types\<close>, \<open>PathHelpers\<close>, \<open>State\<close> and \<open>Project\<close>, which are
  not among the source files at hand; they are rebuilt from the fields that the
  functions below read and write.  An absolute path is its string, a \<open>Date\<close> is its
  \<open>getTime()\<close> in milliseconds, an \<open>Error\<close> is its message and a \<open>Command\<close>
  is shown as a string.
\<close>

type_synonym AbsolutePath = string

type_synonym Date = int

type_synonym Error = string

type_synonym Command = string

text \<open>\<open>{ tag: "OutputPath"; theOutputPath: AbsolutePath; ... } | { tag: "NullOutputPath" }\<close>\<close>

datatype OutputPath =
    OutputPath (theOutputPath: AbsolutePath) (originalString: string)
  | NullOutputPath

datatype InputPath = InputPath (theInputPath: AbsolutePath)

datatype UncheckedInputPath = UncheckedInputPath (theUncheckedInputPath: AbsolutePath)

text \<open>
  The \<open>error\<close> of an entry of \<open>elmJsonsErrors\<close>.  \<open>DuplicateInputs\<close> carries
  \<open>duplicates: {inputs, resolved}[]\<close>, \<open>ElmJsonNotFound\<close> carries \<open>elmJsonNotFound\<close>
  and \<open>foundElmJsonPaths: {inputPath, elmJsonPath}[]\<close>, and so on.
\<close>

datatype ElmJsonsError =
    DuplicateInputs "(InputPath list \<times> AbsolutePath) list"
  | ElmJsonNotFound "InputPath list" "(InputPath \<times> AbsolutePath) list"
  | InputsFailedToResolve "(UncheckedInputPath \<times> Error) list"
  | InputsNotFound "UncheckedInputPath list"
  | NonUniqueElmJsonPaths "(InputPath \<times> AbsolutePath) list"

text \<open>
  The per-target \<open>OutputState\<close> object.  Its \<open>status\<close> has one set of variants in
  \<open>Compile.compile\<close> (part_000) and another in the hot orchestrator (part_003), so the
  type of the status is a parameter.  part_000 calls the field \<open>compilationMode\<close>
  \<open>mode\<close>.
\<close>

record 'st OutputState =
  inputs :: "InputPath list"
  compilationMode :: CompilationMode
  postprocess :: "string list option"
  allRelatedElmFilePaths :: "AbsolutePath set"
  dirty :: bool
  status :: 'st

text \<open>
  What \<open>State\<close> (part_000) and \<open>Project\<close> (part_003) have in common.  \<open>elmJsons\<close> is a
  map from the path of an \<open>elm.json\<close> to a map from output paths to \<open>OutputState\<close>
  objects, both in insertion order.  The objects are shared with commands and closures
  and mutated in place, so the maps hold references and \<open>outputStates\<close> is the store
  that holds the objects.
\<close>

record 'st Targets =
  elmToolingJsonPath :: AbsolutePath
  elmJsons :: "(AbsolutePath \<times> (OutputPath \<times> nat) list) list"
  elmJsonsErrors :: "(OutputPath \<times> ElmJsonsError) list"
  outputStates :: "nat \<Rightarrow> 'st OutputState"

text \<open>
  \<open>number.toString()\<close> for an integer.
\<close>

definition digitChar :: "nat \<Rightarrow> char" where
  "digitChar d = ''0123456789'' ! d"

function natToString :: "nat \<Rightarrow> string" where
  "natToString n = (if n < 10 then [digitChar n] else natToString (n div 10) @ [digitChar (n mod 10)])"
  by pat_completeness auto
termination
  by (relation "measure id") auto

definition toString :: "int \<Rightarrow> string" where
  "toString i = (if i < 0 then CHR ''-'' # natToString (nat (- i)) else natToString (nat i))"

text \<open>\<open>array.join(separator)\<close>, which is what \<open>Helpers.join\<close> is used for.\<close>

fun join :: "string list \<Rightarrow> string \<Rightarrow> string" where
  "join [] separator = []"
| "join [x] separator = x"
| "join (x # y # xs) separator = x @ separator @ join (y # xs) separator"

text \<open>
  \<open>Array.from(new Set(array))\<close>: the distinct elements, each at the place of its first
  occurrence.
\<close>

fun uniqueInOrder :: "'a list \<Rightarrow> 'a list \<Rightarrow> 'a list" where
  "uniqueInOrder seen [] = []"
| "uniqueInOrder seen (x # xs) =
     (if x \<in> set seen then uniqueInOrder seen xs else x # uniqueInOrder (seen @ [x]) xs)"

definition Array_from_Set :: "'a list \<Rightarrow> 'a list" where
  "Array_from_Set xs = uniqueInOrder [] xs"

text \<open>\<open>string.startsWith\<close>, \<open>string.endsWith\<close> and \<open>path.basename\<close> (POSIX).\<close>

definition startsWith :: "string \<Rightarrow> string \<Rightarrow> bool" where
  "startsWith s start = (take (length start) s = start)"

definition endsWith :: "string \<Rightarrow> string \<Rightarrow> bool" where
  "endsWith s ending = (length ending \<le> length s \<and> drop (length s - length ending) s = ending)"

text \<open>
  Node's \<open>path.posix.basename\<close> with one argument scans from the end: it skips the
  trailing slashes and returns the characters up to the slash before them.
\<close>

definition basename :: "string \<Rightarrow> string" where
  "basename p =
     rev (takeWhile (\<lambda>c. c \<noteq> CHR ''/'') (dropWhile (\<lambda>c. c = CHR ''/'') (rev p)))"

section \<open>Command line arguments (\<open>parseArgs\<close>, src/unnamed/part_001)\<close>

text \<open>\<open>CliArg\<close> is \<open>{ tag: "CliArg"; theArg: string }\<close>.\<close>

datatype CliArg = CliArg (theArg: string)

datatype ParseArgsResult =
    BadArgs "CliArg list"
  | ParseArgsSuccess CompilationMode "string list"
  | DebugOptimizeClash
  | DebugOptimizeForHot

text \<open>
  The four \<open>let\<close>/\<open>const\<close> variables of \<open>parseArgs\<close> that the \<open>for\<close> loop
  updates.
\<close>

record ParseArgsVars =
  v_debug :: bool
  v_optimize :: bool
  v_badArgs :: "CliArg list"
  v_outputs :: "string list"

text \<open>
  One pass of the loop body.  \<open>ElmToolingJson.isValidOutputName\<close> is not part of the
  source files at hand, so it is a parameter.
\<close>

definition parseArgs_step :: "(string \<Rightarrow> bool) \<Rightarrow> ParseArgsVars \<Rightarrow> CliArg \<Rightarrow> ParseArgsVars" where
  "parseArgs_step isValidOutputName vars arg =
     (if theArg arg = ''--debug'' then vars\<lparr>v_debug := True\<rparr>
      else if theArg arg = ''--optimize'' then vars\<lparr>v_optimize := True\<rparr>
      else if isValidOutputName (theArg arg)
        then vars\<lparr>v_outputs := v_outputs vars @ [theArg arg]\<rparr>
        else vars\<lparr>v_badArgs := v_badArgs vars @ [arg]\<rparr>)"

definition parseArgs_init :: ParseArgsVars where
  "parseArgs_init = \<lparr>v_debug = False, v_optimize = False, v_badArgs = [], v_outputs = []\<rparr>"

definition parseArgs :: "(string \<Rightarrow> bool) \<Rightarrow> RunMode \<Rightarrow> CliArg list \<Rightarrow> ParseArgsResult" where
  "parseArgs isValidOutputName runMode args =
     (let vars = foldl (parseArgs_step isValidOutputName) parseArgs_init args;
          rest = (if v_badArgs vars \<noteq> [] then BadArgs (v_badArgs vars)
                  else ParseArgsSuccess
                         (if v_debug vars then debug
                          else if v_optimize vars then optimize else standard)
                         (v_outputs vars))
      in case runMode of
           hot \<Rightarrow> if v_debug vars \<or> v_optimize vars then DebugOptimizeForHot else rest
         | RunMode.make \<Rightarrow> if v_debug vars \<and> v_optimize vars then DebugOptimizeClash else rest)"

text \<open>The spec's vocabulary for the argument list.\<close>

definition hasFlag :: "string \<Rightarrow> CliArg list \<Rightarrow> bool" where
  "hasFlag flag args = (flag \<in> set (map theArg args))"

definition isFlag :: "CliArg \<Rightarrow> bool" where
  "isFlag arg = (theArg arg = ''--debug'' \<or> theArg arg = ''--optimize'')"

definition nonFlagBadArgs :: "(string \<Rightarrow> bool) \<Rightarrow> CliArg list \<Rightarrow> CliArg list" where
  "nonFlagBadArgs isValidOutputName args =
     filter (\<lambda>arg. \<not> isFlag arg \<and> \<not> isValidOutputName (theArg arg)) args"

definition nonFlagOutputs :: "(string \<Rightarrow> bool) \<Rightarrow> CliArg list \<Rightarrow> string list" where
  "nonFlagOutputs isValidOutputName args =
     map theArg (filter (\<lambda>arg. \<not> isFlag arg \<and> isValidOutputName (theArg arg)) args)"

section \<open>The WebSocket server's dispatch queue (\<open>WebSocketServer\<close>, src/unnamed/part_004)\<close>

text \<open>
  The class keeps a field \<open>dispatch\<close>, which is either its own method
  \<open>dispatchToQueue\<close> (modelled as \<open>None\<close>) or the function installed by
  \<open>setDispatch\<close>, and the array \<open>msgQueue\<close>.  An installed function acts on the
  state of its owner, of type \<open>'r\<close>; the model covers the functions that do not call
  back into the server while they run.  The messages are not inspected by the class, so
  their type is a parameter.
\<close>

record ('msg, 'r) WebSocketServer =
  thePort :: int
  dispatch :: "('msg \<Rightarrow> 'r \<Rightarrow> 'r) option"
  msgQueue :: "'msg list"

definition dispatchToQueue ::
  "'msg \<Rightarrow> ('msg, 'r) WebSocketServer \<Rightarrow> ('msg, 'r) WebSocketServer" where
  "dispatchToQueue msg srv = srv\<lparr>msgQueue := msgQueue srv @ [msg]\<rparr>"

text \<open>
  \<open>this.dispatch(msg)\<close>, as the handlers of the \<open>connection\<close>, \<open>message\<close> and
  \<open>close\<close> events call it.
\<close>

definition callDispatch ::
  "'msg \<Rightarrow> ('msg, 'r) WebSocketServer \<times> 'r \<Rightarrow> ('msg, 'r) WebSocketServer \<times> 'r" where
  "callDispatch msg = (\<lambda>(srv, r).
     case dispatch srv of
       None \<Rightarrow> (dispatchToQueue msg srv, r)
     | Some f \<Rightarrow> (srv, f msg r))"

definition setDispatch ::
  "('msg \<Rightarrow> 'r \<Rightarrow> 'r) \<Rightarrow> ('msg, 'r) WebSocketServer \<times> 'r \<Rightarrow> ('msg, 'r) WebSocketServer \<times> 'r" where
  "setDispatch f = (\<lambda>(srv, r).
     (srv\<lparr>dispatch := Some f\<rparr>, foldl (\<lambda>r' msg. f msg r') r (msgQueue srv)))"

definition unsetDispatch :: "('msg, 'r) WebSocketServer \<Rightarrow> ('msg, 'r) WebSocketServer" where
  "unsetDispatch srv = srv\<lparr>dispatch := None\<rparr>"

text \<open>The server as the constructor leaves it: \<open>dispatch = dispatchToQueue\<close>, no message.\<close>

definition newWebSocketServer :: "int \<Rightarrow> ('msg, 'r) WebSocketServer" where
  "newWebSocketServer p = \<lparr>thePort = p, dispatch = None, msgQueue = []\<rparr>"

text \<open>A run of events arriving one after the other.\<close>

definition callDispatchAll ::
  "'msg list \<Rightarrow> ('msg, 'r) WebSocketServer \<times> 'r \<Rightarrow> ('msg, 'r) WebSocketServer \<times> 'r" where
  "callDispatchAll msgs st = foldl (\<lambda>st' msg. callDispatch msg st') st msgs"

section \<open>The postprocess worker pool (src/unnamed/part_002)\<close>

text \<open>
  \<open>PostprocessWorker\<close> objects are shared between the pool's set and the closures that
  hold them, so they are references (\<open>nat\<close>) into a store of their \<open>status\<close> fields.
  The \<open>resolve\<close>/\<open>reject\<close> pair of a \<open>Busy\<close> status is the reference of the promise
  it settles.\<close>

datatype PostprocessWorkerStatus = Busy nat | Idle | Terminated

datatype 'a Promise = Pending | Resolved 'a | Rejected Error

text \<open>
  The value of \<open>calculateMax()\<close>: an integer or \<open>Infinity\<close> (the initial function
  returns \<open>Infinity\<close>).  Numbers that are not integers are outside the model.
\<close>

datatype number = Num int | Infinity

record 'a PoolState =
  workers :: "nat list"  \<comment> \<open>\<open>this.workers\<close>, a \<open>Set\<close>, in insertion order\<close>
  workerStatus :: "nat \<Rightarrow> PostprocessWorkerStatus"  \<comment> \<open>the \<open>status\<close> of each worker object\<close>
  calculateMax :: "unit \<Rightarrow> number"
  threadTerminateCalls :: "nat list"  \<comment> \<open>calls of \<open>this.worker.terminate()\<close>, in order\<close>
  promises :: "nat \<Rightarrow> 'a Promise"

definition WORKER_TERMINATED :: Error where
  "WORKER_TERMINATED =
     ''`PostprocessWorker` has a `terminate` method. That was called! This error is supposed to be caught.''"

definition isIdle :: "'a PoolState \<Rightarrow> nat \<Rightarrow> bool" where
  "isIdle s w = (workerStatus s w = Idle)"

text \<open>Calling the \<open>reject\<close> function of a promise: a settled promise stays as it is.\<close>

definition reject :: "nat \<Rightarrow> Error \<Rightarrow> 'a PoolState \<Rightarrow> 'a PoolState" where
  "reject p e s =
     (case promises s p of
        Pending \<Rightarrow> s\<lparr>promises := (promises s)(p := Rejected e)\<rparr>
      | _ \<Rightarrow> s)"

text \<open>
  \<open>PostprocessWorker.terminate\<close> is \<open>async\<close>.  \<open>terminate_start\<close> is the part that runs
  when the method is called, up to \<open>await this.worker.terminate()\<close>; it returns the
  promise that the rest of the method rejects.  \<open>terminate_finish\<close> is that rest, run
  once the thread has ended.  \<open>onTerminated\<close> is the callback given to the constructor.
\<close>

definition terminate_start ::
  "(nat \<Rightarrow> 'a PoolState \<Rightarrow> 'a PoolState) \<Rightarrow> nat \<Rightarrow> 'a PoolState \<Rightarrow> 'a PoolState \<times> nat option" where
  "terminate_start onTerminated w s =
     (case workerStatus s w of
        Idle \<Rightarrow>
          (let s1 = s\<lparr>workerStatus := (workerStatus s)(w := Terminated)\<rparr>;
               s2 = onTerminated w s1
           in (s2\<lparr>threadTerminateCalls := threadTerminateCalls s2 @ [w]\<rparr>, None))
      | Busy p \<Rightarrow>
          (let s1 = s\<lparr>workerStatus := (workerStatus s)(w := Terminated)\<rparr>;
               s2 = onTerminated w s1
           in (s2\<lparr>threadTerminateCalls := threadTerminateCalls s2 @ [w]\<rparr>, Some p))
      | Terminated \<Rightarrow> (s, None))"

definition terminate_finish :: "nat option \<Rightarrow> 'a PoolState \<Rightarrow> 'a PoolState" where
  "terminate_finish k s = (case k of None \<Rightarrow> s | Some p \<Rightarrow> reject p WORKER_TERMINATED s)"

text \<open>The whole method, when nothing else runs while it awaits the thread.\<close>

definition terminate ::
  "(nat \<Rightarrow> 'a PoolState \<Rightarrow> 'a PoolState) \<Rightarrow> nat \<Rightarrow> 'a PoolState \<Rightarrow> 'a PoolState" where
  "terminate onTerminated w s =
     (let (s1, k) = terminate_start onTerminated w s in terminate_finish k s1)"

text \<open>
  The \<open>onTerminated\<close> callback that \<open>getOrCreateAvailableWorker\<close> gives to every worker
  of the pool: \<open>(worker) => { this.workers.delete(worker); }\<close>.
\<close>

definition pool_onTerminated :: "nat \<Rightarrow> 'a PoolState \<Rightarrow> 'a PoolState" where
  "pool_onTerminated w s = s\<lparr>workers := removeAll w (workers s)\<rparr>"

text \<open>
  \<open>array.map((worker) => worker.terminate())\<close> followed by \<open>await Promise.all\<close>: every
  call runs up to its \<open>await\<close>, in order, and the rests of the calls run afterwards.
\<close>

definition terminate_starts ::
  "nat list \<Rightarrow> 'a PoolState \<Rightarrow> 'a PoolState \<times> nat option list" where
  "terminate_starts ws s =
     foldl (\<lambda>(s', ks) w. let (s'', k) = terminate_start pool_onTerminated w s' in (s'', ks @ [k]))
       (s, []) ws"

definition terminate_all :: "nat list \<Rightarrow> 'a PoolState \<Rightarrow> 'a PoolState" where
  "terminate_all ws s =
     (let (s1, ks) = terminate_starts ws s in foldl (\<lambda>s' k. terminate_finish k s') s1 ks)"

text \<open>\<open>array.slice(-n)\<close> for an integer \<open>n > 0\<close>: the last \<open>n\<close> elements, or all of them.\<close>

definition slice_last :: "int \<Rightarrow> 'b list \<Rightarrow> 'b list" where
  "slice_last n xs = drop (length xs - nat n) xs"

definition setCalculateMax :: "(unit \<Rightarrow> number) \<Rightarrow> 'a PoolState \<Rightarrow> 'a PoolState" where
  "setCalculateMax f s = s\<lparr>calculateMax := f\<rparr>"

text \<open>
  \<open>PostprocessWorkerPool.limit\<close>.  \<open>this.workers.size - Infinity\<close> is \<open>-Infinity\<close>,
  which is not \<open>> 0\<close>.
\<close>

definition limit :: "'a PoolState \<Rightarrow> 'a PoolState" where
  "limit s =
     (let idle = filter (isIdle s) (workers s)
      in case calculateMax s () of
           Infinity \<Rightarrow> s
         | Num cap \<Rightarrow>
             (let toKill = int (length (workers s)) - cap
              in if toKill > 0 then terminate_all (slice_last toKill idle) s else s))"

text \<open>The number of workers that \<open>limit\<close> is asked to remove, and those it terminates.\<close>

definition excess :: "'a PoolState \<Rightarrow> int" where
  "excess s = (case calculateMax s () of Infinity \<Rightarrow> 0 | Num cap \<Rightarrow> int (length (workers s)) - cap)"

definition terminatedBy :: "'a PoolState \<Rightarrow> 'a PoolState \<Rightarrow> nat list" where
  "terminatedBy s s' =
     filter (\<lambda>w. workerStatus s w \<noteq> Terminated \<and> workerStatus s' w = Terminated) (workers s)"

text \<open>The state after the pool has terminated the idle workers \<open>ws\<close>.\<close>

definition killed :: "nat list \<Rightarrow> 'a PoolState \<Rightarrow> 'a PoolState" where
  "killed ws s =
     s\<lparr>workerStatus := (\<lambda>w. if w \<in> set ws then Terminated else workerStatus s w),
       workers := filter (\<lambda>w. w \<notin> set ws) (workers s),
       threadTerminateCalls := threadTerminateCalls s @ ws\<rparr>"

section \<open>The compile loop and its report (\<open>compile\<close>, src/unnamed/part_000)\<close>

text \<open>
  The statuses of a target in this file.  \<open>SpawnElm.make\<close> and \<open>postprocess\<close>
  return one of them, and \<open>compile\<close> stores what they return in \<open>outputState.status\<close>.
  Payloads that no function here looks into are strings.
\<close>

datatype ExitReason = ExitCode int | Signal string | Unknown

text \<open>What \<open>SpawnElm.install\<close> returns.\<close>

datatype InstallResult =
    ElmJsonError
  | Success string  \<comment> \<open>\<open>elmInstallOutput\<close>\<close>
  | CreatingDummyFailed Error
  | ElmNotFoundError Command
  | OtherSpawnError Error Command
  | ElmInstallError string string  \<comment> \<open>\<open>title\<close>, \<open>message\<close>\<close>
  | UnexpectedElmInstallOutput ExitReason string string Command

datatype ElmMakeErrorValue =
    GeneralError string
  | CompileErrors "(AbsolutePath \<times> string list) list"  \<comment> \<open>\<open>errors: {path, problems}[]\<close>\<close>

datatype OutputStatus =
    NotWrittenToDisk
  | ElmMake
  | Postprocess
  | Success
  | ElmNotFoundError Command
  | CommandNotFoundError Command
  | OtherSpawnError Error Command
  | UnexpectedElmMakeOutput ExitReason string string Command
  | PostprocessNonZeroExit ExitReason string string Command
  | ElmWatchNodeMissingScript
  | ElmWatchNodeImportError AbsolutePath Error
  | ElmWatchNodeDefaultExportNotFunction AbsolutePath string
  | ElmWatchNodeRunError AbsolutePath "string list" Error
  | ElmWatchNodeResultDecodeError AbsolutePath "string list" Error
  | StdoutDecodeError Error Command
  | ElmMakeJsonParseError Error AbsolutePath Command
  | ElmMakeError ElmMakeErrorValue

text \<open>
  An \<open>ErrorTemplate\<close> is a function from the terminal width to a text, made by a
  function of the modules \<open>Errors\<close> and \<open>ElmMakeError\<close>.  These modules are not among
  the source files at hand.  A template is therefore the call that made it (the
  function and its arguments), and the text it yields at a width is given by a
  parameter \<open>render\<close> of the functions that apply templates.
  \<open>Errors.elmNotFoundError\<close> and \<open>Errors.otherSpawnError\<close> are called with the
  path of an \<open>elm.json\<close> in one place and with an output path in another.
\<close>

datatype ErrorLocation = AtElmJson AbsolutePath | AtOutput OutputPath

datatype ErrorTemplate =
    creatingDummyFailed AbsolutePath Error
  | elmInstallError AbsolutePath string string
  | unexpectedElmInstallOutput AbsolutePath ExitReason string string Command
  | elmJsonNotFound OutputPath "InputPath list" "(InputPath \<times> AbsolutePath) list"
  | nonUniqueElmJsonPaths OutputPath "(InputPath \<times> AbsolutePath) list"
  | inputsNotFound OutputPath "UncheckedInputPath list"
  | inputsFailedToResolve OutputPath "(UncheckedInputPath \<times> Error) list"
  | duplicateInputs OutputPath "(InputPath list \<times> AbsolutePath) list"
  | stuckInProgressState OutputPath string
  | elmNotFoundError ErrorLocation Command
  | commandNotFoundError OutputPath Command
  | otherSpawnError ErrorLocation Error Command
  | unexpectedElmMakeOutput OutputPath ExitReason string string Command
  | postprocessNonZeroExit OutputPath ExitReason string string Command
  | elmWatchNodeMissingScript AbsolutePath
  | elmWatchNodeImportError AbsolutePath Error
  | elmWatchNodeDefaultExportNotFunction AbsolutePath string
  | elmWatchNodeRunError AbsolutePath "string list" Error
  | elmWatchNodeResultDecodeError AbsolutePath "string list" Error
  | stdoutDecodeError Error Command
  | elmMakeJsonParseError OutputPath Error AbsolutePath Command
  | renderGeneralError OutputPath AbsolutePath ElmMakeErrorValue
  | renderProblem AbsolutePath string

record State = "OutputStatus Targets" +
  hasRunInstall :: bool
  fullRestartRequested :: bool

text \<open>What the function writes to the terminal, call by call.\<close>

datatype LoggerOp =
    MoveCursor int int  \<comment> \<open>\<open>readline.moveCursor(stderr, dx, dy)\<close>\<close>
  | ClearLine  \<comment> \<open>\<open>readline.clearLine(stderr, 0)\<close>\<close>
  | ErrorStatusLine OutputPath OutputStatus
      \<comment> \<open>\<open>logger.error(statusLine(outputPath, status, columns, fancy))\<close>\<close>
  | ErrorStatusLineElmJsonsErrors OutputPath
      \<comment> \<open>\<open>logger.error(statusLine(outputPath, { tag: "ElmJsonsErrors" }, columns, fancy))\<close>\<close>
  | ErrorLine string  \<comment> \<open>\<open>logger.error(text)\<close>\<close>
  | ErrorTemplateLine ErrorTemplate  \<comment> \<open>\<open>logger.errorTemplate(error)\<close>\<close>

text \<open>
  The emoji of the fancy output in UTF-8 (police car light, hourglass, no entry with
  its variation selector, check mark) and a line feed.
\<close>

definition emojiError :: string where
  "emojiError = [CHR 0xF0, CHR 0x9F, CHR 0x9A, CHR 0xA8]"

definition emojiLoading :: string where
  "emojiLoading = [CHR 0xE2, CHR 0x8F, CHR 0xB3]"

definition emojiSkipped :: string where
  "emojiSkipped = [CHR 0xE2, CHR 0x9B, CHR 0x94, CHR 0xEF, CHR 0xB8, CHR 0x8F]"

definition emojiSuccess :: string where
  "emojiSuccess = [CHR 0xE2, CHR 0x9C, CHR 0x85]"

definition lineFeed :: string where
  "lineFeed = [CHR 0x0A]"

text \<open>
  The \<open>for\<close> loop over the \<open>elm.json\<close> files that installs the dependencies.
  \<open>compile\<close>, defined below, runs it when \<open>state.hasRunInstall\<close> is false.  For
  each \<open>elm.json\<close> the loop is given the result of \<open>SpawnElm.install\<close> and whether
  the timer wrote the loading message before that result arrived
  (\<open>didWriteLoadingMessage\<close>).  It returns the terminal output, and the exit code if
  the loop returns from \<open>compile\<close>.
\<close>

definition dependenciesMessage :: "nat \<Rightarrow> nat \<Rightarrow> string" where
  "dependenciesMessage index len =
     ''Dependencies'' @
     (if index = 0 then []
      else '' ('' @ toString (int index + 1) @ ''/'' @ toString (int len) @ '')'')"

fun compile_install ::
  "bool \<Rightarrow> bool \<Rightarrow> nat \<Rightarrow> nat \<Rightarrow> (AbsolutePath \<times> InstallResult \<times> bool) list
     \<Rightarrow> LoggerOp list \<times> int option" where
  "compile_install fancy isInteractive len index [] = ([], None)"
| "compile_install fancy isInteractive len index ((elmJsonPath, result, didWriteLoadingMessage) # rest) =
     (let message = dependenciesMessage index len;
          loadingMessage =
            (if fancy then emojiLoading @ '' '' @ message else message @ '': in progress'');
          timer = (if didWriteLoadingMessage then [ErrorLine loadingMessage] else []);
          clearLoadingMessage =
            (if didWriteLoadingMessage \<and> isInteractive then [MoveCursor 0 (- 1), ClearLine] else []);
          onError = (\<lambda>error.
            (timer @ clearLoadingMessage @
             [ErrorLine (if fancy then emojiError @ '' '' @ message else message @ '': error''),
              ErrorLine [],
              ErrorTemplateLine error],
             Some 1));
          continue = (\<lambda>ops.
            (case compile_install fancy isInteractive len (index + 1) rest of
               (ops', code) \<Rightarrow> (timer @ ops @ ops', code)))
      in case result of
           ElmJsonError \<Rightarrow>
             continue
               (if didWriteLoadingMessage
                then clearLoadingMessage @
                     [ErrorLine (if fancy then emojiSkipped @ '' '' @ message
                                 else message @ '': skipped'')]
                else [])
         | InstallResult.Success elmInstallOutput \<Rightarrow>
             continue
               ((if didWriteLoadingMessage \<or> elmInstallOutput \<noteq> []
                 then clearLoadingMessage @
                      [ErrorLine (if fancy then emojiSuccess @ '' '' @ message
                                  else message @ '': success'')]
                 else []) @
                (if elmInstallOutput \<noteq> [] then [ErrorLine elmInstallOutput] else []))
         | CreatingDummyFailed error \<Rightarrow> onError (creatingDummyFailed elmJsonPath error)
         | InstallResult.ElmNotFoundError command \<Rightarrow>
             onError (elmNotFoundError (AtElmJson elmJsonPath) command)
         | InstallResult.OtherSpawnError error command \<Rightarrow>
             onError (otherSpawnError (AtElmJson elmJsonPath) error command)
         | ElmInstallError title message' \<Rightarrow>
             onError (elmInstallError elmJsonPath title message')
         | UnexpectedElmInstallOutput exitReason stdout stderr command \<Rightarrow>
             onError (unexpectedElmInstallOutput elmJsonPath exitReason stdout stderr command))"

text \<open>
  After the loop: \<open>state.hasRunInstall = true\<close>, and \<open>return 0\<close> if a full restart
  was requested meanwhile.
\<close>

definition compile_afterInstall :: "State \<Rightarrow> State \<times> int option" where
  "compile_afterInstall state =
     (state\<lparr>hasRunInstall := True\<rparr>, if fullRestartRequested state then Some 0 else None)"

text \<open>
  \<open>toCompile\<close>: the targets of all \<open>elm.json\<close> files, in order.  Each entry stands
  for \<open>[elmJsonPath, outputPath, outputState]\<close>.
\<close>

definition toCompile :: "State \<Rightarrow> (AbsolutePath \<times> OutputPath \<times> nat) list" where
  "toCompile state =
     concat (map (\<lambda>(elmJsonPath, outputs).
                    map (\<lambda>(outputPath, outputState). (elmJsonPath, outputPath, outputState)) outputs)
                 (elmJsons state))"

definition someOutputIsDirty :: "State \<Rightarrow> bool" where
  "someOutputIsDirty state =
     list_ex (\<lambda>(elmJsonPath, outputs).
                list_ex (\<lambda>(outputPath, outputState). dirty (outputStates state outputState)) outputs)
             (elmJsons state)"

text \<open>
  The closure \<open>updateStatusLine\<close>.  \<open>len\<close> is \<open>toCompile.length\<close>.
\<close>

definition updateStatusLine ::
  "bool \<Rightarrow> nat \<Rightarrow> OutputPath \<Rightarrow> OutputStatus \<Rightarrow> nat option \<Rightarrow> LoggerOp list" where
  "updateStatusLine isInteractive len outputPath st index =
     (case index of
        Some i \<Rightarrow>
          (if isInteractive then [MoveCursor 0 (- int len + int i), ClearLine] else []) @
          [ErrorStatusLine outputPath st] @
          (if isInteractive then [MoveCursor 0 (int len - int i - 1)] else [])
      | None \<Rightarrow> [ErrorStatusLine outputPath st])"

text \<open>Assignments to the fields of the \<open>OutputState\<close> object behind a reference.\<close>

definition setStatus :: "nat \<Rightarrow> OutputStatus \<Rightarrow> State \<Rightarrow> State" where
  "setStatus r st state =
     state\<lparr>outputStates := (outputStates state)(r := (outputStates state r)\<lparr>status := st\<rparr>)\<rparr>"

definition setDirty :: "nat \<Rightarrow> bool \<Rightarrow> State \<Rightarrow> State" where
  "setDirty r b state =
     state\<lparr>outputStates := (outputStates state)(r := (outputStates state r)\<lparr>dirty := b\<rparr>)\<rparr>"

text \<open>
  The \<open>async\<close> function that the \<open>while\<close> loop maps over \<open>toCompile\<close> runs in three
  parts, separated by its two \<open>await\<close>s.  Other code (the watcher) runs between the
  parts and may set \<open>dirty\<close> and \<open>fullRestartRequested\<close>; each part therefore takes the
  state as it finds it.  A part returns the state, the terminal output it adds and where
  the function stands.
\<close>

datatype Task = AwaitElmMake | AwaitPostprocess | Returned

text \<open>From the call to \<open>await Promise.all([SpawnElm.make(...), ...])\<close>.\<close>

definition compile_start ::
  "bool \<Rightarrow> nat \<Rightarrow> OutputPath \<Rightarrow> nat \<Rightarrow> State \<Rightarrow> State \<times> LoggerOp list \<times> Task" where
  "compile_start isInteractive len outputPath outputState state =
     (if \<not> dirty (outputStates state outputState) then (state, [], Returned)
      else
        (setDirty outputState False (setStatus outputState ElmMake state),
         updateStatusLine isInteractive len outputPath ElmMake None,
         AwaitElmMake))"

text \<open>
  From the result of \<open>elm make\<close> to \<open>await postprocess(...)\<close> or to the end.
\<close>

definition compile_afterElmMake ::
  "bool \<Rightarrow> nat \<Rightarrow> OutputPath \<Rightarrow> nat \<Rightarrow> nat \<Rightarrow> OutputStatus \<Rightarrow> State
     \<Rightarrow> State \<times> LoggerOp list \<times> Task" where
  "compile_afterElmMake isInteractive len outputPath outputState index elmMakeResult state =
     (if fullRestartRequested state \<or> dirty (outputStates state outputState)
      then (state, [], Returned)
      else if elmMakeResult = Success \<and> postprocess (outputStates state outputState) \<noteq> None
      then
        (setStatus outputState Postprocess state,
         updateStatusLine isInteractive len outputPath Postprocess (Some index),
         AwaitPostprocess)
      else
        (setStatus outputState elmMakeResult state,
         updateStatusLine isInteractive len outputPath elmMakeResult (Some index),
         Returned))"

text \<open>From the result of \<open>postprocess\<close> to the end.\<close>

definition compile_afterPostprocess ::
  "bool \<Rightarrow> nat \<Rightarrow> OutputPath \<Rightarrow> nat \<Rightarrow> nat \<Rightarrow> OutputStatus \<Rightarrow> State
     \<Rightarrow> State \<times> LoggerOp list \<times> Task" where
  "compile_afterPostprocess isInteractive len outputPath outputState index postprocessResult state =
     (let state1 = setStatus outputState postprocessResult state
      in if fullRestartRequested state1 \<or> dirty (outputStates state1 outputState)
         then (state1, [], Returned)
         else
           (state1,
            updateStatusLine isInteractive len outputPath postprocessResult (Some index),
            Returned))"

text \<open>
  \<open>extractErrors\<close>.  The callback of the inner \<open>flatMap\<close> returns an array or one
  template; \<open>flatMap\<close> makes a list of either.
\<close>

definition elmJsonsErrorTemplate :: "OutputPath \<times> ElmJsonsError \<Rightarrow> ErrorTemplate" where
  "elmJsonsErrorTemplate = (\<lambda>(outputPath, error).
     case error of
       ElmJsonNotFound notFound foundElmJsonPaths \<Rightarrow>
         elmJsonNotFound outputPath notFound foundElmJsonPaths
     | NonUniqueElmJsonPaths paths \<Rightarrow> nonUniqueElmJsonPaths outputPath paths
     | InputsNotFound notFound \<Rightarrow> inputsNotFound outputPath notFound
     | InputsFailedToResolve failed \<Rightarrow> inputsFailedToResolve outputPath failed
     | DuplicateInputs duplicates \<Rightarrow> duplicateInputs outputPath duplicates)"

fun statusErrors ::
  "AbsolutePath \<Rightarrow> AbsolutePath \<Rightarrow> OutputPath \<Rightarrow> OutputStatus \<Rightarrow> ErrorTemplate list" where
  "statusErrors toolingJson elmJsonPath outputPath NotWrittenToDisk = []"
| "statusErrors toolingJson elmJsonPath outputPath ElmMake =
     [stuckInProgressState outputPath ''elm make'']"
| "statusErrors toolingJson elmJsonPath outputPath Postprocess =
     [stuckInProgressState outputPath ''postprocess'']"
| "statusErrors toolingJson elmJsonPath outputPath Success = []"
| "statusErrors toolingJson elmJsonPath outputPath (ElmNotFoundError command) =
     [elmNotFoundError (AtOutput outputPath) command]"
| "statusErrors toolingJson elmJsonPath outputPath (CommandNotFoundError command) =
     [commandNotFoundError outputPath command]"
| "statusErrors toolingJson elmJsonPath outputPath (OtherSpawnError error command) =
     [otherSpawnError (AtOutput outputPath) error command]"
| "statusErrors toolingJson elmJsonPath outputPath
       (UnexpectedElmMakeOutput exitReason stdout stderr command) =
     [unexpectedElmMakeOutput outputPath exitReason stdout stderr command]"
| "statusErrors toolingJson elmJsonPath outputPath
       (PostprocessNonZeroExit exitReason stdout stderr executedCommand) =
     [postprocessNonZeroExit outputPath exitReason stdout stderr executedCommand]"
| "statusErrors toolingJson elmJsonPath outputPath ElmWatchNodeMissingScript =
     [elmWatchNodeMissingScript toolingJson]"
| "statusErrors toolingJson elmJsonPath outputPath (ElmWatchNodeImportError scriptPath error) =
     [elmWatchNodeImportError scriptPath error]"
| "statusErrors toolingJson elmJsonPath outputPath
       (ElmWatchNodeDefaultExportNotFunction scriptPath imported) =
     [elmWatchNodeDefaultExportNotFunction scriptPath imported]"
| "statusErrors toolingJson elmJsonPath outputPath (ElmWatchNodeRunError scriptPath args error) =
     [elmWatchNodeRunError scriptPath args error]"
| "statusErrors toolingJson elmJsonPath outputPath
       (ElmWatchNodeResultDecodeError scriptPath args error) =
     [elmWatchNodeResultDecodeError scriptPath args error]"
| "statusErrors toolingJson elmJsonPath outputPath (StdoutDecodeError error executedCommand) =
     [stdoutDecodeError error executedCommand]"
| "statusErrors toolingJson elmJsonPath outputPath
       (ElmMakeJsonParseError error jsonPath command) =
     [elmMakeJsonParseError outputPath error jsonPath command]"
| "statusErrors toolingJson elmJsonPath outputPath (ElmMakeError (GeneralError e)) =
     [renderGeneralError outputPath elmJsonPath (GeneralError e)]"
| "statusErrors toolingJson elmJsonPath outputPath (ElmMakeError (CompileErrors errors)) =
     concat (map (\<lambda>(path, problems). map (renderProblem path) problems) errors)"

definition extractErrors :: "State \<Rightarrow> ErrorTemplate list" where
  "extractErrors state =
     map elmJsonsErrorTemplate (elmJsonsErrors state) @
     concat (map (\<lambda>(elmJsonPath, outputs).
                    concat (map (\<lambda>(outputPath, outputState).
                                   statusErrors (elmToolingJsonPath state) elmJsonPath outputPath
                                     (status (outputStates state outputState)))
                                outputs))
                 (elmJsons state))"

text \<open>
  The end of \<open>compile\<close>, after the \<open>while\<close> loop: the terminal output and the
  returned exit code.  \<open>render\<close> applies a template to a width, \<open>bold\<close> is
  \<open>Helpers.bold\<close>, \<open>fancy\<close> is \<open>!IS_WINDOWS && !NO_COLOR\<close> and \<open>stderrColumns\<close>
  is the width of the terminal.
\<close>

definition errorStringsOf :: "(ErrorTemplate \<Rightarrow> nat \<Rightarrow> string) \<Rightarrow> nat \<Rightarrow> State \<Rightarrow> string list" where
  "errorStringsOf render stderrColumns state =
     Array_from_Set (map (\<lambda>template. render template stderrColumns) (extractErrors state))"

definition compile_end ::
  "(ErrorTemplate \<Rightarrow> nat \<Rightarrow> string) \<Rightarrow> (string \<Rightarrow> string) \<Rightarrow> bool \<Rightarrow> nat \<Rightarrow> State
     \<Rightarrow> LoggerOp list \<times> int" where
  "compile_end render bold fancy stderrColumns state =
     (if fullRestartRequested state then ([], 0)
      else
        (let errors = extractErrors state
         in if errors = [] then ([], 0)
            else
              (let errorStrings = errorStringsOf render stderrColumns state
               in ([ErrorLine '''',
                    ErrorLine (join errorStrings (lineFeed @ lineFeed)),
                    ErrorLine '''',
                    ErrorLine
                      ((if fancy then emojiError @ '' '' else '''') @
                       bold (toString (int (length errorStrings))) @ '' error'' @
                       (if length errorStrings = 1 then '''' else ''s'') @ '' found'')],
                   1))))"

text \<open>The results of \<open>SpawnElm.install\<close> on which the loop returns through \<open>onError\<close>.\<close>

definition installFails :: "InstallResult \<Rightarrow> bool" where
  "installFails result =
     (case result of
        ElmJsonError \<Rightarrow> False
      | InstallResult.Success elmInstallOutput \<Rightarrow> False
      | _ \<Rightarrow> True)"

subsection \<open>The whole of \<open>compile\<close>\<close>

text \<open>
  \<open>compile\<close> is \<open>async\<close>: it waits for the installations, for \<open>elm make\<close> and
  for the postprocess of each target, and while it waits other code runs.  What it waits
  for, and what the other code does to the state meanwhile, is given to the model as a
  schedule:
  \<^item> \<open>installResults\<close>: for each \<open>elm.json\<close> in order, the result of
    \<open>SpawnElm.install\<close> and whether the timer wrote the loading message first;
  \<^item> \<open>duringInstall\<close>: what other code does to the state while the installations
    run;
  \<^item> \<open>rounds\<close>: for each pass of the \<open>while\<close> loop, the events that arrive while
    \<open>Promise.all\<close> is awaited, in order.
  Other code reaches the state through the target objects and the \<open>State\<close> object; it
  is modelled by the two things the engine provides for: marking a target dirty and
  requesting a full restart.  An event \<open>ElmMakeDone k result\<close> or
  \<open>PostprocessDone k result\<close> is the completion that the \<open>k\<close>-th entry of
  \<open>toCompile\<close> is waiting for.  A schedule that ends while something is still awaited,
  or names a completion that nothing awaits, is no run of the program: the result is
  \<open>None\<close>.  The parameter \<open>runMode\<close> only selects between two branches that do
  nothing, and \<open>env\<close> only goes to the spawned processes.
\<close>

datatype Interference = MarkDirty nat | RequestFullRestart

datatype RoundEvent =
    ElmMakeDone nat OutputStatus
  | PostprocessDone nat OutputStatus
  | Meanwhile Interference

record Schedule =
  installResults :: "(InstallResult \<times> bool) list"
  duringInstall :: "Interference list"
  rounds :: "RoundEvent list list"

definition interfere :: "Interference \<Rightarrow> State \<Rightarrow> State" where
  "interfere i state =
     (case i of
        MarkDirty r \<Rightarrow> setDirty r True state
      | RequestFullRestart \<Rightarrow> state\<lparr>fullRestartRequested := True\<rparr>)"

text \<open>
  The start of a pass: \<open>toCompile.map(async ...)\<close> calls the function for every entry
  in order, and each call runs up to its first \<open>await\<close>.  \<open>targets\<close> is \<open>toCompile\<close>.
\<close>

definition compile_startAll ::
  "bool \<Rightarrow> (AbsolutePath \<times> OutputPath \<times> nat) list \<Rightarrow> State \<Rightarrow> State \<times> LoggerOp list \<times> Task list" where
  "compile_startAll isInteractive targets state =
     foldl (\<lambda>(st, ops, tasks) (elmJsonPath, outputPath, outputState).
              case compile_start isInteractive (length targets) outputPath outputState st of
                (st', ops', task) \<Rightarrow> (st', ops @ ops', tasks @ [task]))
           (state, [], []) targets"

text \<open>One event of a pass.\<close>

definition compile_event ::
  "bool \<Rightarrow> (AbsolutePath \<times> OutputPath \<times> nat) list \<Rightarrow> RoundEvent
     \<Rightarrow> State \<times> LoggerOp list \<times> Task list \<Rightarrow> (State \<times> LoggerOp list \<times> Task list) option" where
  "compile_event isInteractive targets event = (\<lambda>(st, ops, tasks).
     case event of
       ElmMakeDone k elmMakeResult \<Rightarrow>
         (if k < length tasks \<and> k < length targets \<and> tasks ! k = AwaitElmMake
          then
            (case targets ! k of
               (elmJsonPath, outputPath, outputState) \<Rightarrow>
                 (case compile_afterElmMake isInteractive (length targets) outputPath outputState k
                         elmMakeResult st of
                    (st', ops', task) \<Rightarrow> Some (st', ops @ ops', tasks[k := task])))
          else None)
     | PostprocessDone k postprocessResult \<Rightarrow>
         (if k < length tasks \<and> k < length targets \<and> tasks ! k = AwaitPostprocess
          then
            (case targets ! k of
               (elmJsonPath, outputPath, outputState) \<Rightarrow>
                 (case compile_afterPostprocess isInteractive (length targets) outputPath
                         outputState k postprocessResult st of
                    (st', ops', task) \<Rightarrow> Some (st', ops @ ops', tasks[k := task])))
          else None)
     | Meanwhile i \<Rightarrow> Some (interfere i st, ops, tasks))"

fun compile_events ::
  "bool \<Rightarrow> (AbsolutePath \<times> OutputPath \<times> nat) list \<Rightarrow> RoundEvent list
     \<Rightarrow> State \<times> LoggerOp list \<times> Task list \<Rightarrow> (State \<times> LoggerOp list \<times> Task list) option" where
  "compile_events isInteractive targets [] cfg = Some cfg"
| "compile_events isInteractive targets (event # events) cfg =
     (case compile_event isInteractive targets event cfg of
        None \<Rightarrow> None
      | Some cfg' \<Rightarrow> compile_events isInteractive targets events cfg')"

text \<open>
  One pass of the \<open>while\<close> loop, \<open>await Promise.all(toCompile.map(...))\<close>: it is over
  when every call has returned.
\<close>

definition compile_round ::
  "bool \<Rightarrow> (AbsolutePath \<times> OutputPath \<times> nat) list \<Rightarrow> RoundEvent list \<Rightarrow> State
     \<Rightarrow> (State \<times> LoggerOp list) option" where
  "compile_round isInteractive targets events state =
     (case compile_events isInteractive targets events
             (compile_startAll isInteractive targets state) of
        None \<Rightarrow> None
      | Some (st, ops, tasks) \<Rightarrow>
          (if list_all (\<lambda>task. task = Returned) tasks then Some (st, ops) else None))"

text \<open>\<open>while (someOutputIsDirty(state)) { await Promise.all(...) }\<close>\<close>

fun compile_loop ::
  "bool \<Rightarrow> (AbsolutePath \<times> OutputPath \<times> nat) list \<Rightarrow> RoundEvent list list \<Rightarrow> State
     \<Rightarrow> (State \<times> LoggerOp list) option" where
  "compile_loop isInteractive targets [] state =
     (if someOutputIsDirty state then None else Some (state, []))"
| "compile_loop isInteractive targets (events # rest) state =
     (if someOutputIsDirty state
      then
        (case compile_round isInteractive targets events state of
           None \<Rightarrow> None
         | Some (state', ops) \<Rightarrow>
             (case compile_loop isInteractive targets rest state' of
                None \<Rightarrow> None
              | Some (state'', ops') \<Rightarrow> Some (state'', ops @ ops')))
      else Some (state, []))"

text \<open>
  From the status lines for \<open>elmJsonsErrors\<close> to the end of \<open>compile\<close>.
\<close>

definition compile_afterInstallation ::
  "(ErrorTemplate \<Rightarrow> nat \<Rightarrow> string) \<Rightarrow> (string \<Rightarrow> string) \<Rightarrow> bool \<Rightarrow> bool \<Rightarrow> nat
     \<Rightarrow> RoundEvent list list \<Rightarrow> State \<Rightarrow> (State \<times> LoggerOp list \<times> int) option" where
  "compile_afterInstallation render bold fancy isInteractive stderrColumns passes state =
     (let statusLines =
            map (\<lambda>(outputPath, error). ErrorStatusLineElmJsonsErrors outputPath)
              (elmJsonsErrors state)
      in case compile_loop isInteractive (toCompile state) passes state of
           None \<Rightarrow> None
         | Some (state', ops) \<Rightarrow>
             (case compile_end render bold fancy stderrColumns state' of
                (ops', code) \<Rightarrow> Some (state', statusLines @ ops @ ops', code)))"

text \<open>
  \<open>compile\<close>.  The result is the state at the end, what was written to the
  terminal and the exit code that the promise resolves with.  On the path that returns
  from the installation loop \<open>compile\<close> assigns nothing to the state.
\<close>

definition compile ::
  "(ErrorTemplate \<Rightarrow> nat \<Rightarrow> string) \<Rightarrow> (string \<Rightarrow> string) \<Rightarrow> bool \<Rightarrow> bool \<Rightarrow> nat
     \<Rightarrow> Schedule \<Rightarrow> State \<Rightarrow> (State \<times> LoggerOp list \<times> int) option" where
  "compile render bold fancy isInteractive stderrColumns schedule state =
     (if \<not> hasRunInstall state
      then
        (let elmJsonsArray = elmJsons state;
             steps = map (\<lambda>((elmJsonPath, outs), (result, didWrite)). (elmJsonPath, result, didWrite))
                       (zip elmJsonsArray (installResults schedule))
         in case compile_install fancy isInteractive (length elmJsonsArray) 0 steps of
              (ops, Some code) \<Rightarrow> Some (state, ops, code)
            | (ops, None) \<Rightarrow>
                (if length (installResults schedule) < length elmJsonsArray then None
                 else
                   (case compile_afterInstall (foldl (\<lambda>st i. interfere i st) state
                                                 (duringInstall schedule)) of
                      (state1, Some code) \<Rightarrow> Some (state1, ops, code)
                    | (state1, None) \<Rightarrow>
                        (case compile_afterInstallation render bold fancy isInteractive
                                stderrColumns (rounds schedule) state1 of
                           None \<Rightarrow> None
                         | Some (state2, ops', code) \<Rightarrow> Some (state2, ops @ ops', code)))))
      else compile_afterInstallation render bold fancy isInteractive stderrColumns
             (rounds schedule) state)"

text \<open>
  Whether an installation of the run fails: the state has not run the installation yet
  and one of the results that the loop gets to is an error.
\<close>

definition installationFails :: "Schedule \<Rightarrow> State \<Rightarrow> bool" where
  "installationFails schedule state =
     (\<not> hasRunInstall state \<and>
      list_ex (\<lambda>(result, didWrite). installFails result)
        (take (length (elmJsons state)) (installResults schedule)))"

section \<open>The hot orchestrator (src/unnamed/part_003)\<close>

subsection \<open>Types\<close>

text \<open>A \<open>WebSocket\<close> object is compared by identity only: it is a number.\<close>

type_synonym WebSocket = nat

datatype WatcherEventName = added | changed | removed

datatype Event =
    WatcherEvent Date WatcherEventName AbsolutePath  \<comment> \<open>\<open>date\<close>, \<open>eventName\<close>, \<open>file\<close>\<close>
  | WebSocketConnectedEvent Date OutputPath  \<comment> \<open>\<open>date\<close>, \<open>outputPath\<close>\<close>

text \<open>
  The statuses that \<open>onWebSocketConnected\<close> tells apart; every other status is an
  \<open>OutputError\<close> (the \<open>default\<close> branch), kept by its tag.
\<close>

datatype ProjectOutputStatus =
    Success int  \<comment> \<open>\<open>compiledTimestamp\<close>\<close>
  | NotWrittenToDisk
  | ElmMakeTypecheckOnly
  | ElmMake
  | Postprocess
  | Interrupted
  | QueuedForElmMake
  | QueuedForPostprocess
  | OutputError string

record Project = "ProjectOutputStatus Targets" +
  watchRoot :: AbsolutePath
  elmWatchJsonPath :: AbsolutePath
  disabledOutputs :: "OutputPath list"  \<comment> \<open>a \<open>HashSet\<close>, in iteration order\<close>

datatype ClientStatus = SuccessfullyCompiled | Busy | CompileError | ClientError string

datatype WebSocketToClientMessage = StatusChanged ClientStatus

datatype WebSocketToServerMessage = ChangeCompilationMode CompilationMode

text \<open>\<open>WebSocket.Data\<close>: a string, or a buffer of some kind.\<close>

datatype Data = StringData string | BinaryData "nat list"

datatype OutputPathOrError = Output OutputPath | OutputPathError

record WebSocketConnection =
  webSocket :: WebSocket
  outputPath :: OutputPathOrError
  priority :: int

datatype InstallDependenciesResult = Error | Success

datatype Msg =
    WebSocketClosed WebSocket
  | WebSocketConnected Date WebSocket string  \<comment> \<open>\<open>date\<close>, \<open>webSocket\<close>, \<open>urlString\<close>\<close>
  | WebSocketMessageReceived WebSocket Data
  | CompilationPartDone Date "(OutputPath \<times> int) list"  \<comment> \<open>\<open>date\<close>, \<open>prioritizedOutputs\<close>\<close>
  | GotWatcherEvent Date WatcherEventName string  \<comment> \<open>\<open>date\<close>, \<open>eventName\<close>, \<open>absolutePathString\<close>\<close>
  | InstallDependenciesDone InstallDependenciesResult
  | SleepBeforeNextActionDone Date

datatype NextAction =
    Compile "Event list"
  | NoAction
  | PrintNonInterestingEvents "Event list"
  | Restart "(Event \<times> string) list"  \<comment> \<open>\<open>eventsWithMessages\<close>\<close>

datatype HotState =
    Compiling Date "Event list"  \<comment> \<open>\<open>start\<close>, \<open>events\<close>\<close>
  | Dependencies Date "Event list"
  | Idle
  | Restarting "Event list"

record Model =
  nextAction :: NextAction
  hotState :: HotState

datatype CompileAllOutputsMode = AfterIdle | AfterInstallDependencies | ContinueCompilation

datatype Cmd =
    ChangeCompilationMode WebSocket CompilationMode
  | ClearScreen
  | CompileAllOutputsAsNeeded CompileAllOutputsMode bool  \<comment> \<open>\<open>mode\<close>, \<open>includeInterrupted\<close>\<close>
  | HandleElmWatchJsonWriteError
  | InstallDependencies
  | LogInfoMessageWithTimeline string "Event list"  \<comment> \<open>\<open>message\<close>, \<open>events\<close>\<close>
  | MarkAsDirty "(OutputPath \<times> nat) list"  \<comment> \<open>\<open>outputs: {outputPath, outputState}[]\<close>\<close>
  | NoCmd
  | PrintCompileErrors "ErrorTemplate list"
  | Restart "Event list"  \<comment> \<open>\<open>restartReasons\<close>\<close>
  | RunOnIdle
  | SleepBeforeNextAction
  | Throw Error
  | WebSocketAdd WebSocketConnection
  | WebSocketRemove WebSocket
  | WebSocketSend WebSocket WebSocketToClientMessage
  | WebSocketSendToOutput OutputPath WebSocketToClientMessage

text \<open>
  \<open>WebSocketState\<close>, and \<open>Mutable\<close>, which has its two fields and more.  \<open>'r\<close> is the
  state that an installed dispatch function of the server acts on.  The \<open>watcher\<close> has
  no state of its own here.
\<close>

record 'r WebSocketState =
  webSocketServer :: "(Msg, 'r) WebSocketServer"
  webSocketConnections :: "WebSocketConnection list"

record 'r Mutable = "'r WebSocketState" +
  project :: Project
  lastInfoMessage :: "string option"
  watcherTimeoutId :: "nat option"
  elmWatchJsonWriteError :: "Error option"

datatype 'r HotRunResult =
    ExitOnIdle
  | Restart "Event list" "'r WebSocketState option"  \<comment> \<open>\<open>restartReasons\<close>, \<open>webSocketState\<close>\<close>

text \<open>The decoded query of a connect URL, and the results of parsing.\<close>

record ConnectedParams =
  elmWatchVersion :: string
  "output" :: string
  compiledTimestamp :: int

text \<open>
  The decoder \<open>WebSocketConnectedParams\<close> is made with the library \<open>tiny-decoders\<close>
  and applied to \<open>Object.fromEntries(params)\<close>.  The values that reach it are given
  by \<open>JsValue\<close>: a property that is missing reads as \<open>undefined\<close>.  An object is the
  map from its own keys to their values.  \<open>Decode.string\<close> and \<open>Decode.number\<close>
  accept a value whose \<open>typeof\<close> is \<open>"string"\<close> or \<open>"number"\<close> and throw a
  \<open>DecoderError\<close> otherwise; \<open>Decode.fieldsAuto\<close> decodes the fields in the order of
  its mapping, puts the key in front of the path of an error, and with
  \<open>{ exact: "throw" }\<close> throws when the object has a key outside the mapping.  An
  exception is the value \<open>Inl\<close>.  The error of the exact check carries the known
  fields and the set of the unknown keys.
\<close>

datatype JsValue = JsUndefined | JsString string | JsNumber int

datatype DecoderErrorVariant =
    ExpectedString JsValue  \<comment> \<open>\<open>{ tag: "string", got }\<close>\<close>
  | ExpectedNumber JsValue  \<comment> \<open>\<open>{ tag: "number", got }\<close>\<close>
  | ExactFields "string list" "string set"  \<comment> \<open>\<open>{ tag: "exact fields", knownFields, got }\<close>\<close>

datatype DecoderError = DecoderError DecoderErrorVariant "string list"  \<comment> \<open>variant, \<open>path\<close>\<close>

definition Decode_string :: "JsValue \<Rightarrow> DecoderError + string" where
  "Decode_string v =
     (case v of JsString s \<Rightarrow> Inr s | _ \<Rightarrow> Inl (DecoderError (ExpectedString v) []))"

definition Decode_number :: "JsValue \<Rightarrow> DecoderError + int" where
  "Decode_number v =
     (case v of JsNumber n \<Rightarrow> Inr n | _ \<Rightarrow> Inl (DecoderError (ExpectedNumber v) []))"

definition DecoderError_at :: "DecoderError \<Rightarrow> string \<Rightarrow> DecoderError" where
  "DecoderError_at error key =
     (case error of DecoderError variant path \<Rightarrow> DecoderError variant (key # path))"

definition getProperty :: "(string \<rightharpoonup> JsValue) \<Rightarrow> string \<Rightarrow> JsValue" where
  "getProperty obj key = (case obj key of None \<Rightarrow> JsUndefined | Some v \<Rightarrow> v)"

text \<open>
  \<open>Object.fromEntries\<close>: a later entry with the same key takes the place of an earlier
  one.
\<close>

definition Object_fromEntries :: "(string \<times> 'v) list \<Rightarrow> (string \<rightharpoonup> 'v)" where
  "Object_fromEntries entries = foldl (\<lambda>obj (key, v). obj(key \<mapsto> v)) Map.empty entries"

text \<open>
  \<open>Decode.fieldsAuto({ elmWatchVersion: Decode.string, output: Decode.string,
  compiledTimestamp: Decode.number }, { exact: "throw" })\<close>
\<close>

definition WebSocketConnectedParams :: "(string \<rightharpoonup> JsValue) \<Rightarrow> DecoderError + ConnectedParams" where
  "WebSocketConnectedParams obj =
     (case Decode_string (getProperty obj ''elmWatchVersion'') of
        Inl error \<Rightarrow> Inl (DecoderError_at error ''elmWatchVersion'')
      | Inr version \<Rightarrow>
          (case Decode_string (getProperty obj ''output'') of
             Inl error \<Rightarrow> Inl (DecoderError_at error ''output'')
           | Inr out \<Rightarrow>
               (case Decode_number (getProperty obj ''compiledTimestamp'') of
                  Inl error \<Rightarrow> Inl (DecoderError_at error ''compiledTimestamp'')
                | Inr timestamp \<Rightarrow>
                    (let knownFields = [''elmWatchVersion'', ''output'', ''compiledTimestamp''];
                         unknownFields = dom obj - set knownFields
                     in if unknownFields \<noteq> {}
                        then Inl (DecoderError (ExactFields knownFields unknownFields) [])
                        else Inr \<lparr>elmWatchVersion = version, output = out,
                                  compiledTimestamp = timestamp\<rparr>))))"

text \<open>
  \<open>Object.fromEntries(params)\<close> for a \<open>URLSearchParams\<close>: its entries are pairs of
  strings.
\<close>

definition paramsObject :: "(string \<times> string) list \<Rightarrow> (string \<rightharpoonup> JsValue)" where
  "paramsObject params = Object_fromEntries (map (\<lambda>(key, v). (key, JsString v)) params)"


datatype ParseWebSocketConnectRequestUrlResult =
    BadUrl string string  \<comment> \<open>\<open>expectedStart\<close>, \<open>actualUrlString\<close>\<close>
  | OutputDisabled string "OutputPath list" "OutputPath list"
      \<comment> \<open>\<open>output\<close>, \<open>enabledOutputs\<close>, \<open>disabledOutputs\<close>\<close>
  | OutputNotFound string "OutputPath list" "OutputPath list"
  | ParamsDecodeError DecoderError string  \<comment> \<open>\<open>error\<close>, \<open>actualUrlString\<close>\<close>
  | WrongVersion string string  \<comment> \<open>\<open>expectedVersion\<close>, \<open>actualVersion\<close>\<close>
  | Success OutputPath nat int  \<comment> \<open>\<open>outputPath\<close>, \<open>outputState\<close>, \<open>compiledTimestamp\<close>\<close>

datatype ParseWebSocketToServerMessageResult =
    DecodeError Error
  | UnsupportedDataType
  | Success WebSocketToServerMessage

text \<open>
  What \<open>Compile.getOutputActions\<close> returns.  The orchestrator takes the length of
  \<open>actions\<close> and the three counts.
\<close>

record OutputActions =
  actions :: "(OutputPath \<times> nat) list"
  total :: nat
  numExecuting :: nat
  numInterrupted :: nat

text \<open>
  Functions that the orchestrator calls and that are not among the source files at
  hand: from \<open>Types\<close>, \<open>Helpers\<close>, \<open>Errors\<close> and \<open>Compile\<close>.
  \<open>urlSearchParams\<close> gives the entries of \<open>new URLSearchParams(query)\<close>, which is
  part of Node.  \<open>decodeWebSocketToServerMessage\<close> stands for
  \<open>WebSocketToServerMessage(JSON.parse(data))\<close> with its exception as a value; its
  field \<open>compilationMode\<close> is decoded by a decoder of \<open>Types\<close>.
\<close>

record Externals =
  outputPathToOriginalString :: "OutputPath \<Rightarrow> string"
  equalsInputPath :: "AbsolutePath \<Rightarrow> InputPath \<Rightarrow> bool"
  bold :: "string \<Rightarrow> string"
  urlSearchParams :: "string \<Rightarrow> (string \<times> string) list"
  decodeWebSocketToServerMessage :: "string \<Rightarrow> Error + WebSocketToServerMessage"
  webSocketBadUrl :: "string \<Rightarrow> string \<Rightarrow> string"
  webSocketParamsDecodeError :: "DecoderError \<Rightarrow> string \<Rightarrow> string"
  webSocketWrongVersion :: "string \<Rightarrow> string \<Rightarrow> string"
  webSocketOutputNotFound :: "string \<Rightarrow> OutputPath list \<Rightarrow> OutputPath list \<Rightarrow> string"
  webSocketOutputDisabled :: "string \<Rightarrow> OutputPath list \<Rightarrow> OutputPath list \<Rightarrow> string"
  webSocketUnsupportedDataType :: "unit \<Rightarrow> string"
  webSocketDecodeError :: "Error \<Rightarrow> string"
  getOutputActions :: "Project \<Rightarrow> bool \<Rightarrow> (OutputPath \<times> int) list \<Rightarrow> OutputActions"
  hotExtractErrors :: "Project \<Rightarrow> ErrorTemplate list"

subsection \<open>Helpers\<close>

text \<open>
  \<open>Project.getFlatOutputs\<close> is not among the source files either.  It is used as the
  list of all \<open>{outputPath, outputState}\<close> of the project, which is what \<open>toCompile\<close>
  of part_000 computes; it is defined in the same way.
\<close>

definition getFlatOutputs :: "Project \<Rightarrow> (OutputPath \<times> nat) list" where
  "getFlatOutputs proj = concat (map snd (elmJsons proj))"

definition eventNameString :: "WatcherEventName \<Rightarrow> string" where
  "eventNameString eventName =
     (case eventName of added \<Rightarrow> ''added'' | changed \<Rightarrow> ''changed'' | removed \<Rightarrow> ''removed'')"

definition makeWatcherEvent :: "WatcherEventName \<Rightarrow> string \<Rightarrow> Date \<Rightarrow> Event" where
  "makeWatcherEvent eventName absolutePathString date =
     WatcherEvent date eventName absolutePathString"

definition makeRestartNextAction ::
  "string \<Rightarrow> Event \<Rightarrow> NextAction \<Rightarrow> Project \<Rightarrow> NextAction \<times> Cmd list" where
  "makeRestartNextAction message event nextAct proj =
     (NextAction.Restart
        (case nextAct of
           NextAction.Restart eventsWithMessages \<Rightarrow> eventsWithMessages @ [(event, message)]
         | _ \<Rightarrow> [(event, message)]),
      [MarkAsDirty (getFlatOutputs proj)])"

definition restartBecauseJsonFileChangedMessage ::
  "Externals \<Rightarrow> string \<Rightarrow> WatcherEventName \<Rightarrow> string" where
  "restartBecauseJsonFileChangedMessage ext changedFile eventName =
     ''An '' @ bold ext changedFile @ '' file '' @ eventNameString eventName @ ''.''"

definition restartBecauseRelatedToElmJsonsErrorsMessage :: "WatcherEventName \<Rightarrow> string" where
  "restartBecauseRelatedToElmJsonsErrorsMessage eventName =
     ''A problematic input Elm file was '' @ eventNameString eventName @ ''.''"

definition restartBecauseInputWasRemovedMessage :: string where
  "restartBecauseInputWasRemovedMessage = ''An input Elm file was removed.''"

definition restartingMessage :: "(Event \<times> string) list \<Rightarrow> string" where
  "restartingMessage events =
     join (Array_from_Set (map snd events) @ [''Restarting!'']) lineFeed"

definition compileFinishedMessage :: "Externals \<Rightarrow> int \<Rightarrow> string" where
  "compileFinishedMessage ext duration =
     ''Compilation finished in '' @ bold ext (toString duration) @ '' ms.''"

definition notInterestingElmFileChangedMessage :: "Event list \<Rightarrow> OutputPath list \<Rightarrow> string" where
  "notInterestingElmFileChangedMessage events disabled =
     (let what1 = (if length events = 1 then ''file is'' else ''files are'');
          what2 = (if length disabled > 0 then ''any of the enabled outputs'' else ''any output'')
      in ''FYI: The above Elm '' @ what1 @ '' not imported by '' @ what2 @ ''. Nothing to do!'')"

definition isRelatedToElmJsonsErrors ::
  "Externals \<Rightarrow> AbsolutePath \<Rightarrow> (OutputPath \<times> ElmJsonsError) list \<Rightarrow> bool" where
  "isRelatedToElmJsonsErrors ext elmFile errors =
     list_ex (\<lambda>(outPath, error).
       case error of
         DuplicateInputs duplicates \<Rightarrow>
           list_ex (\<lambda>(ins, resolved).
                      resolved = elmFile \<or> list_ex (equalsInputPath ext elmFile) ins)
                   duplicates
       | ElmJsonNotFound notFound foundElmJsonPaths \<Rightarrow>
           list_ex (equalsInputPath ext elmFile) notFound \<or>
           list_ex (\<lambda>(inputPath, elmJsonPath). equalsInputPath ext elmFile inputPath)
                   foundElmJsonPaths
       | InputsFailedToResolve failed \<Rightarrow>
           list_ex (\<lambda>(inputPath, e). theUncheckedInputPath inputPath = elmFile) failed
       | InputsNotFound notFound \<Rightarrow>
           list_ex (\<lambda>inputPath. theUncheckedInputPath inputPath = elmFile) notFound
       | NonUniqueElmJsonPaths paths \<Rightarrow>
           list_ex (\<lambda>(inputPath, elmJsonPath). equalsInputPath ext elmFile inputPath) paths)
     errors"

definition webSocketConnectionIsForOutputPath :: "WebSocketConnection \<Rightarrow> OutputPath \<Rightarrow> bool" where
  "webSocketConnectionIsForOutputPath webSocketConnection outPath =
     (case outputPath webSocketConnection of
        OutputPathError \<Rightarrow> False
      | Output (OutputPath connectionPath orig) \<Rightarrow>
          (case outPath of
             OutputPath path orig' \<Rightarrow> connectionPath = path
           | NullOutputPath \<Rightarrow> False)
      | Output NullOutputPath \<Rightarrow>
          (case outPath of
             OutputPath path orig' \<Rightarrow> False
           | NullOutputPath \<Rightarrow> True))"

subsection \<open>Watcher events\<close>

text \<open>
  The two nested \<open>for\<close> loops of \<open>onElmFileWatcherEvent\<close>, over the targets in
  order.  \<open>None\<close> is the \<open>return\<close> from inside the loops (an input was removed);
  otherwise the result is \<open>dirtyOutputs\<close>.
\<close>

fun onElmFileWatcherEvent_loop ::
  "Externals \<Rightarrow> Project \<Rightarrow> WatcherEventName \<Rightarrow> AbsolutePath \<Rightarrow> (OutputPath \<times> nat) list
     \<Rightarrow> (OutputPath \<times> nat) list \<Rightarrow> (OutputPath \<times> nat) list option" where
  "onElmFileWatcherEvent_loop ext proj eventName elmFile [] dirtyOutputs = Some dirtyOutputs"
| "onElmFileWatcherEvent_loop ext proj eventName elmFile ((outPath, outputState) # rest) dirtyOutputs =
     (if eventName = removed \<and>
         list_ex (equalsInputPath ext elmFile) (inputs (outputStates proj outputState))
      then None
      else onElmFileWatcherEvent_loop ext proj eventName elmFile rest
             (if elmFile \<in> allRelatedElmFilePaths (outputStates proj outputState)
              then dirtyOutputs @ [(outPath, outputState)] else dirtyOutputs))"

definition onElmFileWatcherEvent ::
  "Externals \<Rightarrow> Project \<Rightarrow> Date \<Rightarrow> WatcherEventName \<Rightarrow> AbsolutePath \<Rightarrow> NextAction
     \<Rightarrow> (NextAction \<times> Cmd list) option" where
  "onElmFileWatcherEvent ext proj date eventName elmFile nextAct =
     (let event = WatcherEvent date eventName elmFile
      in if isRelatedToElmJsonsErrors ext elmFile (elmJsonsErrors proj)
         then Some (makeRestartNextAction
                      (restartBecauseRelatedToElmJsonsErrorsMessage eventName) event nextAct proj)
         else
           (case onElmFileWatcherEvent_loop ext proj eventName elmFile (getFlatOutputs proj) [] of
              None \<Rightarrow>
                Some (makeRestartNextAction restartBecauseInputWasRemovedMessage event nextAct proj)
            | Some dirtyOutputs \<Rightarrow>
                (if dirtyOutputs \<noteq> []
                 then
                   (case nextAct of
                      NextAction.Restart eventsWithMessages \<Rightarrow>
                        Some (nextAct, [MarkAsDirty dirtyOutputs])
                    | Compile events \<Rightarrow>
                        Some (Compile (events @ [event]), [MarkAsDirty dirtyOutputs])
                    | NoAction \<Rightarrow> Some (Compile [event], [MarkAsDirty dirtyOutputs])
                    | PrintNonInterestingEvents events \<Rightarrow>
                        Some (Compile [event], [MarkAsDirty dirtyOutputs]))
                 else
                   (case nextAct of
                      NextAction.Restart eventsWithMessages \<Rightarrow> Some (nextAct, [])
                    | Compile events \<Rightarrow> Some (nextAct, [])
                    | NoAction \<Rightarrow> Some (PrintNonInterestingEvents [event], [])
                    | PrintNonInterestingEvents events \<Rightarrow>
                        Some (PrintNonInterestingEvents (events @ [event]), [])))))"

text \<open>\<open>undefined\<close> is \<open>None\<close>.\<close>

definition onWatcherEvent ::
  "Externals \<Rightarrow> Date \<Rightarrow> Project \<Rightarrow> WatcherEventName \<Rightarrow> string \<Rightarrow> NextAction
     \<Rightarrow> (NextAction \<times> Cmd list) option" where
  "onWatcherEvent ext now proj eventName absolutePathString nextAct =
     (if endsWith absolutePathString ''.elm''
      then onElmFileWatcherEvent ext proj now eventName absolutePathString nextAct
      else if basename absolutePathString = ''elm-tooling.json''
      then
        (case eventName of
           added \<Rightarrow>
             Some (makeRestartNextAction
                     (restartBecauseJsonFileChangedMessage ext (basename absolutePathString) eventName)
                     (makeWatcherEvent eventName absolutePathString now) nextAct proj)
         | _ \<Rightarrow>
             (if absolutePathString = elmToolingJsonPath proj
              then Some (makeRestartNextAction
                     (restartBecauseJsonFileChangedMessage ext (basename absolutePathString) eventName)
                     (makeWatcherEvent eventName absolutePathString now) nextAct proj)
              else None))
      else if basename absolutePathString = ''elm.json''
      then
        (case eventName of
           added \<Rightarrow>
             Some (makeRestartNextAction
                     (restartBecauseJsonFileChangedMessage ext (basename absolutePathString) eventName)
                     (makeWatcherEvent eventName absolutePathString now) nextAct proj)
         | _ \<Rightarrow>
             (if list_ex (\<lambda>(elmJsonPath, outs). absolutePathString = elmJsonPath) (elmJsons proj)
              then Some (makeRestartNextAction
                     (restartBecauseJsonFileChangedMessage ext (basename absolutePathString) eventName)
                     (makeWatcherEvent eventName absolutePathString now) nextAct proj)
              else None))
      else None)"

subsection \<open>The next action\<close>

definition runCompile :: "Model \<Rightarrow> Event list \<Rightarrow> Date \<Rightarrow> Model \<times> Cmd list" where
  "runCompile model events start =
     (case hotState model of
        Idle \<Rightarrow>
          (model\<lparr>hotState := Compiling start events\<rparr>,
           [CompileAllOutputsAsNeeded AfterIdle True])
      | Compiling start' events' \<Rightarrow>
          (model\<lparr>hotState := Compiling start' (events' @ events)\<rparr>,
           [CompileAllOutputsAsNeeded ContinueCompilation True])
      | Dependencies start' events' \<Rightarrow>
          (model\<lparr>hotState := Dependencies start' (events' @ events)\<rparr>, [])
      | Restarting events' \<Rightarrow> (model, []))"

definition runNextAction :: "Date \<Rightarrow> Project \<Rightarrow> Model \<Rightarrow> Model \<times> Cmd list" where
  "runNextAction start proj model =
     (case nextAction model of
        NoAction \<Rightarrow> (model, [])
      | NextAction.Restart eventsWithMessages \<Rightarrow>
          (let events = map fst eventsWithMessages
           in case hotState model of
                Idle \<Rightarrow>
                  (model\<lparr>hotState := Restarting events\<rparr>, [ClearScreen, Cmd.Restart events])
              | Dependencies start' events' \<Rightarrow>
                  (model\<lparr>hotState := Restarting events\<rparr>,
                   [ClearScreen,
                    LogInfoMessageWithTimeline (restartingMessage eventsWithMessages) events])
              | Compiling start' events' \<Rightarrow>
                  (model\<lparr>hotState := Restarting events\<rparr>,
                   [ClearScreen,
                    LogInfoMessageWithTimeline (restartingMessage eventsWithMessages) events])
              | Restarting events' \<Rightarrow> (model, []))
      | Compile events \<Rightarrow> runCompile model events start
      | PrintNonInterestingEvents events \<Rightarrow>
          (case hotState model of
             Idle \<Rightarrow>
               (model,
                [LogInfoMessageWithTimeline
                   (notInterestingElmFileChangedMessage events (disabledOutputs proj)) events,
                 RunOnIdle])
           | _ \<Rightarrow> (model, [])))"

subsection \<open>WebSocket connections and messages\<close>

text \<open>
  The version that the build puts in place of the token.
\<close>

definition VERSION :: string where
  "VERSION = ''%VERSION%''"

definition parseWebSocketConnectRequestUrl ::
  "Externals \<Rightarrow> Project \<Rightarrow> string \<Rightarrow> ParseWebSocketConnectRequestUrlResult" where
  "parseWebSocketConnectRequestUrl ext proj urlString =
     (if \<not> startsWith urlString ''/?'' then BadUrl ''/?'' urlString
      else
        (case WebSocketConnectedParams (paramsObject (urlSearchParams ext (drop 2 urlString))) of
           Inl error \<Rightarrow> ParamsDecodeError error urlString
         | Inr webSocketConnectedParams \<Rightarrow>
             (if elmWatchVersion webSocketConnectedParams \<noteq> VERSION
              then WrongVersion VERSION (elmWatchVersion webSocketConnectedParams)
              else
                (let flatOutputs = getFlatOutputs proj;
                     out = output webSocketConnectedParams
                 in case find (\<lambda>(outPath, outputState).
                                  outputPathToOriginalString ext outPath = out) flatOutputs of
                      None \<Rightarrow>
                        (let enabledOutputs = map fst flatOutputs;
                             disabled = disabledOutputs proj
                         in case find (\<lambda>outPath. outputPathToOriginalString ext outPath = out)
                                   disabled of
                              None \<Rightarrow> OutputNotFound out enabledOutputs disabled
                            | Some disabledMatch \<Rightarrow> OutputDisabled out enabledOutputs disabled)
                    | Some (outPath, outputState) \<Rightarrow>
                        ParseWebSocketConnectRequestUrlResult.Success outPath outputState
                          (compiledTimestamp webSocketConnectedParams)))))"

definition parseWebSocketToServerMessage ::
  "Externals \<Rightarrow> Data \<Rightarrow> ParseWebSocketToServerMessageResult" where
  "parseWebSocketToServerMessage ext data =
     (case data of
        BinaryData bytes \<Rightarrow> UnsupportedDataType
      | StringData text \<Rightarrow>
          (case decodeWebSocketToServerMessage ext text of
             Inr message \<Rightarrow> ParseWebSocketToServerMessageResult.Success message
           | Inl error \<Rightarrow> DecodeError error))"

definition onWebSocketConnectedRecompileNeeded ::
  "Event \<Rightarrow> Model \<Rightarrow> OutputPath \<Rightarrow> nat \<Rightarrow> Model \<times> Cmd list" where
  "onWebSocketConnectedRecompileNeeded event model outPath outputState =
     (case nextAction model of
        NextAction.Restart eventsWithMessages \<Rightarrow>
          (model, [WebSocketSendToOutput outPath (StatusChanged Busy)])
      | Compile events \<Rightarrow>
          (model\<lparr>nextAction := Compile (events @ [event])\<rparr>,
           [MarkAsDirty [(outPath, outputState)]])
      | NoAction \<Rightarrow>
          (model\<lparr>nextAction := Compile [event]\<rparr>, [MarkAsDirty [(outPath, outputState)]])
      | PrintNonInterestingEvents events \<Rightarrow>
          (model\<lparr>nextAction := Compile [event]\<rparr>, [MarkAsDirty [(outPath, outputState)]]))"

text \<open>
  The inner part of \<open>onWebSocketConnected\<close> for the hot states \<open>Idle\<close> and
  \<open>Compiling\<close>: the \<open>switch\<close> on the status of the target.
\<close>

definition onWebSocketConnected_status ::
  "Project \<Rightarrow> Event \<Rightarrow> Model \<Rightarrow> OutputPath \<Rightarrow> nat \<Rightarrow> int \<Rightarrow> Model \<times> Cmd list" where
  "onWebSocketConnected_status proj event model outPath outputState timestamp =
     (case status (outputStates proj outputState) of
        ProjectOutputStatus.Success compiled \<Rightarrow>
          (if compiled = timestamp
           then (model, [WebSocketSendToOutput outPath (StatusChanged SuccessfullyCompiled)])
           else onWebSocketConnectedRecompileNeeded event model outPath outputState)
      | ProjectOutputStatus.NotWrittenToDisk \<Rightarrow>
          onWebSocketConnectedRecompileNeeded event model outPath outputState
      | ElmMakeTypecheckOnly \<Rightarrow>
          onWebSocketConnectedRecompileNeeded event model outPath outputState
      | OutputError tag \<Rightarrow> (model, [WebSocketSendToOutput outPath (StatusChanged CompileError)])
      | _ \<Rightarrow>
          (case hotState model of
             Compiling start events \<Rightarrow>
               (model\<lparr>hotState := Compiling start (events @ [event])\<rparr>,
                [WebSocketSendToOutput outPath (StatusChanged Busy)])
           | _ \<Rightarrow> onWebSocketConnectedRecompileNeeded event model outPath outputState))"

definition onWebSocketConnected ::
  "Project \<Rightarrow> Date \<Rightarrow> Model \<Rightarrow> OutputPath \<Rightarrow> nat \<Rightarrow> int \<Rightarrow> Model \<times> Cmd list" where
  "onWebSocketConnected proj now model outPath outputState timestamp =
     (let event = WebSocketConnectedEvent now outPath
      in case hotState model of
           Restarting events \<Rightarrow> (model, [WebSocketSendToOutput outPath (StatusChanged Busy)])
         | Dependencies start events \<Rightarrow>
             (model\<lparr>hotState := Dependencies start (events @ [event])\<rparr>,
              [WebSocketSendToOutput outPath (StatusChanged Busy)])
         | _ \<Rightarrow> onWebSocketConnected_status proj event model outPath outputState timestamp)"

definition onWebSocketToServerMessage ::
  "Model \<Rightarrow> WebSocket \<Rightarrow> WebSocketToServerMessage \<Rightarrow> Model \<times> Cmd list" where
  "onWebSocketToServerMessage model ws message =
     (case message of
        WebSocketToServerMessage.ChangeCompilationMode mode \<Rightarrow>
          (model, [Cmd.ChangeCompilationMode ws mode]))"

subsection \<open>\<open>update\<close>\<close>

definition hotStateTag :: "HotState \<Rightarrow> string" where
  "hotStateTag hs =
     (case hs of
        Compiling start events \<Rightarrow> ''Compiling''
      | Dependencies start events \<Rightarrow> ''Dependencies''
      | Idle \<Rightarrow> ''Idle''
      | Restarting events \<Rightarrow> ''Restarting'')"

text \<open>The closure \<open>onError\<close> of the \<open>WebSocketConnected\<close> case.\<close>

definition webSocketConnected_onError ::
  "Model \<Rightarrow> Date \<Rightarrow> WebSocket \<Rightarrow> string \<Rightarrow> Model \<times> Cmd list" where
  "webSocketConnected_onError model date ws errorMessage =
     (model,
      [WebSocketAdd \<lparr>webSocket = ws, outputPath = OutputPathError, priority = date\<rparr>,
       WebSocketSend ws (StatusChanged (ClientError errorMessage))])"

definition update_CompilationPartDone ::
  "Externals \<Rightarrow> Project \<Rightarrow> Date \<Rightarrow> (OutputPath \<times> int) list \<Rightarrow> Model \<Rightarrow> Model \<times> Cmd list" where
  "update_CompilationPartDone ext proj date prioritizedOutputs model =
     (let includeInterrupted = (case nextAction model of Compile events \<Rightarrow> False | _ \<Rightarrow> True);
          outputActions = getOutputActions ext proj includeInterrupted prioritizedOutputs
      in case hotState model of
           Dependencies start events \<Rightarrow>
             (model, [Throw (''HotState became '' @ hotStateTag (hotState model) @ '' while compiling!'')])
         | Idle \<Rightarrow>
             (model, [Throw (''HotState became '' @ hotStateTag (hotState model) @ '' while compiling!'')])
         | Compiling start events \<Rightarrow>
             (let duration = date - start;
                  errors = hotExtractErrors ext proj;
                  cmd = NoCmd
              in if length (actions outputActions) > 0
                 then (model, [CompileAllOutputsAsNeeded ContinueCompilation includeInterrupted])
                 else if numExecuting outputActions > 0 \<or> numInterrupted outputActions > 0
                 then (model, [cmd])
                 else
                   (model\<lparr>hotState := Idle\<rparr>,
                    [cmd,
                     if errors \<noteq> [] then PrintCompileErrors errors else NoCmd,
                     HandleElmWatchJsonWriteError,
                     LogInfoMessageWithTimeline (compileFinishedMessage ext duration) events,
                     RunOnIdle]))
         | Restarting events \<Rightarrow>
             (if numExecuting outputActions = 0 then (model, [Cmd.Restart events])
              else (model, [])))"

definition update_InstallDependenciesDone ::
  "InstallDependenciesResult \<Rightarrow> Model \<Rightarrow> Model \<times> Cmd list" where
  "update_InstallDependenciesDone installResult model =
     (case hotState model of
        Dependencies start events \<Rightarrow>
          (case installResult of
             InstallDependenciesResult.Error \<Rightarrow> (model\<lparr>hotState := Idle\<rparr>, [RunOnIdle])
           | InstallDependenciesResult.Success \<Rightarrow>
               (model\<lparr>hotState := Compiling start events\<rparr>,
                [CompileAllOutputsAsNeeded AfterInstallDependencies True]))
      | Restarting events \<Rightarrow> (model, [Cmd.Restart events])
      | _ \<Rightarrow>
          (model,
           [Throw (''HotState became '' @ hotStateTag (hotState model) @
                   '' while installing dependencies!'')]))"

definition update_WebSocketConnected ::
  "Externals \<Rightarrow> Project \<Rightarrow> Date \<Rightarrow> WebSocket \<Rightarrow> string \<Rightarrow> Model \<Rightarrow> Model \<times> Cmd list" where
  "update_WebSocketConnected ext proj date ws urlString model =
     (case parseWebSocketConnectRequestUrl ext proj urlString of
        ParseWebSocketConnectRequestUrlResult.Success outPath outputState timestamp \<Rightarrow>
          (let (nextModel, cmds) = onWebSocketConnected proj date model outPath outputState timestamp
           in (nextModel,
               [WebSocketAdd \<lparr>webSocket = ws, outputPath = Output outPath, priority = date\<rparr>] @
               cmds @ [SleepBeforeNextAction]))
      | BadUrl expectedStart actualUrlString \<Rightarrow>
          webSocketConnected_onError model date ws
            (webSocketBadUrl ext expectedStart actualUrlString)
      | ParamsDecodeError error actualUrlString \<Rightarrow>
          webSocketConnected_onError model date ws
            (webSocketParamsDecodeError ext error actualUrlString)
      | WrongVersion expectedVersion actualVersion \<Rightarrow>
          webSocketConnected_onError model date ws
            (webSocketWrongVersion ext expectedVersion actualVersion)
      | OutputNotFound out enabledOutputs disabled \<Rightarrow>
          webSocketConnected_onError model date ws
            (webSocketOutputNotFound ext out enabledOutputs disabled)
      | OutputDisabled out enabledOutputs disabled \<Rightarrow>
          webSocketConnected_onError model date ws
            (webSocketOutputDisabled ext out enabledOutputs disabled))"

definition update_WebSocketMessageReceived ::
  "Externals \<Rightarrow> WebSocket \<Rightarrow> Data \<Rightarrow> Model \<Rightarrow> Model \<times> Cmd list" where
  "update_WebSocketMessageReceived ext ws data model =
     (case parseWebSocketToServerMessage ext data of
        ParseWebSocketToServerMessageResult.Success message \<Rightarrow>
          onWebSocketToServerMessage model ws message
      | UnsupportedDataType \<Rightarrow>
          (model,
           [WebSocketSend ws (StatusChanged (ClientError (webSocketUnsupportedDataType ext ())))])
      | DecodeError error \<Rightarrow>
          (model, [WebSocketSend ws (StatusChanged (ClientError (webSocketDecodeError ext error)))]))"

text \<open>
  \<open>update(project)(msg, model)\<close>.  The cases of its \<open>switch\<close> that are longer than a
  few lines are the functions \<open>update_...\<close> above.
\<close>

fun update :: "Externals \<Rightarrow> Project \<Rightarrow> Msg \<Rightarrow> Model \<Rightarrow> Model \<times> Cmd list" where
  "update ext proj (GotWatcherEvent date eventName absolutePathString) model =
     (case onWatcherEvent ext date proj eventName absolutePathString (nextAction model) of
        None \<Rightarrow> (model, [])
      | Some (updatedNextAction, cmds) \<Rightarrow>
          (model\<lparr>nextAction := updatedNextAction\<rparr>, cmds @ [SleepBeforeNextAction]))"
| "update ext proj (SleepBeforeNextActionDone date) model =
     (let (nextModel, cmds) = runNextAction date proj model
      in (nextModel\<lparr>nextAction := NoAction\<rparr>, cmds))"
| "update ext proj (CompilationPartDone date prioritizedOutputs) model =
     update_CompilationPartDone ext proj date prioritizedOutputs model"
| "update ext proj (InstallDependenciesDone installResult) model =
     update_InstallDependenciesDone installResult model"
| "update ext proj (WebSocketConnected date ws urlString) model =
     update_WebSocketConnected ext proj date ws urlString model"
| "update ext proj (WebSocketMessageReceived ws data) model =
     update_WebSocketMessageReceived ext ws data model"
| "update ext proj (WebSocketClosed ws) model = (model, [WebSocketRemove ws])"

subsection \<open>Cases of \<open>runCmd\<close>\<close>

text \<open>
  \<open>runCmd\<close> acts on \<open>mutable\<close> and on the world: sockets, the file system, the
  promise of the run.  The cases below return the new \<open>mutable\<close> and, where there is
  one, what goes to the world.
\<close>

text \<open>\<open>case "MarkAsDirty"\<close>: the new \<open>mutable\<close> and the messages sent, in order.\<close>

definition webSocketSendToOutput ::
  "OutputPath \<Rightarrow> WebSocketToClientMessage \<Rightarrow> WebSocketConnection list
     \<Rightarrow> (WebSocket \<times> WebSocketToClientMessage) list" where
  "webSocketSendToOutput outPath message connections =
     map (\<lambda>connection. (webSocket connection, message))
       (filter (\<lambda>connection. webSocketConnectionIsForOutputPath connection outPath) connections)"

definition markDirty :: "nat \<Rightarrow> Project \<Rightarrow> Project" where
  "markDirty r proj =
     proj\<lparr>outputStates := (outputStates proj)(r := (outputStates proj r)\<lparr>dirty := True\<rparr>)\<rparr>"

definition runCmd_MarkAsDirty ::
  "(OutputPath \<times> nat) list \<Rightarrow> 'r Mutable \<Rightarrow> 'r Mutable \<times> (WebSocket \<times> WebSocketToClientMessage) list" where
  "runCmd_MarkAsDirty outs mutable =
     foldl (\<lambda>(m, sent) (outPath, outputState).
              (m\<lparr>project := markDirty outputState (project m)\<rparr>,
               sent @ webSocketSendToOutput outPath (StatusChanged Busy) (webSocketConnections m)))
           (mutable, []) outs"

text \<open>
  \<open>case "Restart"\<close>: the new \<open>mutable\<close>, whether the server is closed besides the
  watcher, and the value that \<open>resolvePromise\<close> gets once they are closed.
\<close>

definition elmToolingJsonChanged :: "Event list \<Rightarrow> bool" where
  "elmToolingJsonChanged restartReasons =
     list_ex (\<lambda>event.
                case event of
                  WatcherEvent date eventName file \<Rightarrow> basename file = ''elm-tooling.json''
                | WebSocketConnectedEvent date outPath \<Rightarrow> False)
             restartReasons"

definition runCmd_Restart ::
  "Event list \<Rightarrow> 'r Mutable \<Rightarrow> 'r Mutable \<times> bool \<times> 'r HotRunResult" where
  "runCmd_Restart restartReasons mutable =
     (let changed = elmToolingJsonChanged restartReasons;
          mutable1 = mutable\<lparr>webSocketServer := unsetDispatch (webSocketServer mutable)\<rparr>
      in (mutable1, changed,
          HotRunResult.Restart restartReasons
            (if changed then None
             else Some \<lparr>webSocketServer = webSocketServer mutable1,
                        webSocketConnections = webSocketConnections mutable1\<rparr>)))"

text \<open>\<open>case "WebSocketAdd"\<close> and \<open>case "WebSocketSend"\<close>.\<close>

definition runCmd_WebSocketAdd :: "WebSocketConnection \<Rightarrow> 'r Mutable \<Rightarrow> 'r Mutable" where
  "runCmd_WebSocketAdd connection mutable =
     mutable\<lparr>webSocketConnections := webSocketConnections mutable @ [connection]\<rparr>"

definition runCmd_WebSocketSend ::
  "WebSocket \<Rightarrow> WebSocketToClientMessage \<Rightarrow> (WebSocket \<times> WebSocketToClientMessage) list" where
  "runCmd_WebSocketSend ws message = [(ws, message)]"

subsection \<open>The persisted state file\<close>

text \<open>\<open>ElmWatchJsonWritable\<close>; an entry of \<open>outputs\<close> is \<open>{ compilationMode }\<close>.\<close>

record ElmWatchJsonWritable =
  port :: int
  outputs :: "string \<rightharpoonup> CompilationMode"

text \<open>
  What the \<open>try\<close> block of \<open>writeElmWatchJson\<close> does: \<open>mkdirSync\<close> throws,
  \<open>writeFileSync\<close> throws, or the file is written.
\<close>

datatype FsOutcome = MkdirThrows Error | WriteThrows Error | Written

definition elmWatchJson :: "Externals \<Rightarrow> 'r Mutable \<Rightarrow> ElmWatchJsonWritable" where
  "elmWatchJson ext mutable =
     \<lparr>port = thePort (webSocketServer mutable),
      outputs = Object_fromEntries
        (concat (map (\<lambda>(outPath, outputState).
                        if compilationMode (outputStates (project mutable) outputState) = standard
                        then []
                        else [(outputPathToOriginalString ext outPath,
                               compilationMode (outputStates (project mutable) outputState))])
                     (getFlatOutputs (project mutable))))\<rparr>"

text \<open>
  \<open>writeElmWatchJson\<close>: the new \<open>mutable\<close> and the value handed to \<open>writeFileSync\<close>
  (as the text \<open>JSON.stringify(json, null, 4)\<close> and a line feed), if it is called.
\<close>

definition writeElmWatchJson ::
  "Externals \<Rightarrow> FsOutcome \<Rightarrow> 'r Mutable \<Rightarrow> 'r Mutable \<times> ElmWatchJsonWritable option" where
  "writeElmWatchJson ext fs mutable =
     (let json = elmWatchJson ext mutable
      in case fs of
           MkdirThrows error \<Rightarrow> (mutable\<lparr>elmWatchJsonWriteError := Some error\<rparr>, None)
         | WriteThrows error \<Rightarrow> (mutable\<lparr>elmWatchJsonWriteError := Some error\<rparr>, Some json)
         | Written \<Rightarrow> (mutable\<lparr>elmWatchJsonWriteError := None\<rparr>, Some json))"

section \<open>Concrete states\<close>

text \<open>Small states on which the theorems below are instantiated.\<close>

definition pool_example :: "unit PoolState" where
  "pool_example =
     \<lparr>workers = [0, 1, 2],
      workerStatus = (\<lambda>_. Terminated)(0 := PostprocessWorkerStatus.Busy 7, 1 := PostprocessWorkerStatus.Busy 8, 2 := PostprocessWorkerStatus.Idle),
      calculateMax = (\<lambda>_. Num 1),
      threadTerminateCalls = [],
      promises = (\<lambda>_. Pending)\<rparr>"

definition pool_example2 :: "unit PoolState" where
  "pool_example2 =
     \<lparr>workers = [0, 1, 2, 3],
      workerStatus = (\<lambda>_. Terminated)(0 := PostprocessWorkerStatus.Idle, 1 := PostprocessWorkerStatus.Busy 8, 2 := PostprocessWorkerStatus.Idle, 3 := PostprocessWorkerStatus.Idle),
      calculateMax = (\<lambda>_. Num 2),
      threadTerminateCalls = [],
      promises = (\<lambda>_. Pending)\<rparr>"

text \<open>
  A project with two \<open>elm.json\<close> files and three targets, one of them in \<open>debug\<close>
  mode, and stand-ins for the functions that are parameters.  \<open>urlSearchParams\<close> has
  the entries of the two queries that are used below.
\<close>

definition outputState_example :: "ProjectOutputStatus OutputState" where
  "outputState_example =
     \<lparr>inputs = [InputPath ''/app/src/Main.elm''],
      compilationMode = standard,
      postprocess = None,
      allRelatedElmFilePaths = {''/app/src/Main.elm''},
      dirty = False,
      status = ProjectOutputStatus.NotWrittenToDisk\<rparr>"

definition project_example :: Project where
  "project_example =
     \<lparr>elmToolingJsonPath = ''/app/elm-tooling.json'',
      elmJsons =
        [(''/app/elm.json'',
          [(OutputPath ''/app/build/main.js'' ''build/main.js'', 0),
           (OutputPath ''/app/build/admin.js'' ''build/admin.js'', 1)]),
         (''/app/lib/elm.json'', [(OutputPath ''/app/build/lib.js'' ''build/lib.js'', 2)])],
      elmJsonsErrors = [],
      outputStates =
        (\<lambda>r. outputState_example)(1 := outputState_example\<lparr>compilationMode := debug\<rparr>),
      watchRoot = ''/app'',
      elmWatchJsonPath = ''/app/elm-stuff/elm-watch.json'',
      disabledOutputs = [OutputPath ''/app/build/old.js'' ''build/old.js'']\<rparr>"

definition ext_example :: Externals where
  "ext_example =
     \<lparr>outputPathToOriginalString =
        (\<lambda>p. case p of OutputPath path orig \<Rightarrow> orig | NullOutputPath \<Rightarrow> ''/dev/null''),
      equalsInputPath = (\<lambda>file inputPath. theInputPath inputPath = file),
      bold = (\<lambda>s. s),
      urlSearchParams =
        (\<lambda>query.
           if query = ''elmWatchVersion=bogus&output=build/main.js&compiledTimestamp=0''
             then [(''elmWatchVersion'', ''bogus''), (''output'', ''build/main.js''),
                   (''compiledTimestamp'', ''0'')]
           else if query = ''elmWatchVersion=%VERSION%&output=build/main.js&compiledTimestamp=0''
             then [(''elmWatchVersion'', ''%VERSION%''), (''output'', ''build/main.js''),
                   (''compiledTimestamp'', ''0'')]
           else []),
      decodeWebSocketToServerMessage = (\<lambda>text. Inl ''decode error''),
      webSocketBadUrl = (\<lambda>expectedStart actual. ''bad url''),
      webSocketParamsDecodeError = (\<lambda>error actual. ''bad params''),
      webSocketWrongVersion = (\<lambda>expected actual. ''wrong version''),
      webSocketOutputNotFound = (\<lambda>out enabled disabled. ''output not found''),
      webSocketOutputDisabled = (\<lambda>out enabled disabled. ''output disabled''),
      webSocketUnsupportedDataType = (\<lambda>u. ''unsupported data type''),
      webSocketDecodeError = (\<lambda>error. ''decode error''),
      getOutputActions =
        (\<lambda>proj includeInterrupted prioritized.
           \<lparr>actions = [], total = 3, numExecuting = 0, numInterrupted = 0\<rparr>),
      hotExtractErrors = (\<lambda>proj. [])\<rparr>"

definition mutable_example :: "unit Mutable" where
  "mutable_example =
     \<lparr>webSocketServer = newWebSocketServer 8000,
      webSocketConnections = [],
      project = project_example,
      lastInfoMessage = None,
      watcherTimeoutId = None,
      elmWatchJsonWriteError = None\<rparr>"

definition model_compiling :: Model where
  "model_compiling = \<lparr>nextAction = NoAction, hotState = Compiling 0 []\<rparr>"

text \<open>
  A state of \<open>compile\<close> with two targets that share a module with one compile error,
  and a way to render templates.
\<close>

definition compileOutputState_example :: "OutputStatus OutputState" where
  "compileOutputState_example =
     \<lparr>inputs = [InputPath ''/app/src/Main.elm''],
      compilationMode = standard,
      postprocess = Some [''elm-watch-node'', ''postprocess.js''],
      allRelatedElmFilePaths = {},
      dirty = False,
      status = ElmMakeError (CompileErrors [(''/app/src/Shared.elm'', [''TYPE MISMATCH''])])\<rparr>"

definition state_example :: State where
  "state_example =
     \<lparr>elmToolingJsonPath = ''/app/elm-tooling.json'',
      elmJsons =
        [(''/app/elm.json'',
          [(OutputPath ''/app/build/main.js'' ''build/main.js'', 0),
           (OutputPath ''/app/build/admin.js'' ''build/admin.js'', 1)])],
      elmJsonsErrors = [],
      outputStates = (\<lambda>r. compileOutputState_example),
      hasRunInstall = True,
      fullRestartRequested = False\<rparr>"

definition state_dirty :: State where
  "state_dirty =
     state_example
       \<lparr>outputStates :=
          (\<lambda>r. compileOutputState_example)
            (0 := compileOutputState_example\<lparr>dirty := True, status := OutputStatus.Success\<rparr>)\<rparr>"

definition render_example :: "ErrorTemplate \<Rightarrow> nat \<Rightarrow> string" where
  "render_example template width =
     (case template of
        renderProblem path problem \<Rightarrow> take width (path @ '': '' @ problem)
      | _ \<Rightarrow> ''error'')"

text \<open>The state at the start of a first run: nothing installed, every target dirty.\<close>

definition state_fresh :: State where
  "state_fresh =
     state_example
       \<lparr>outputStates :=
          (\<lambda>r. compileOutputState_example\<lparr>dirty := True, status := OutputStatus.NotWrittenToDisk\<rparr>),
        hasRunInstall := False\<rparr>"

text \<open>
  Two runs from that state: in one the installation succeeds and \<open>elm make\<close> finds
  the same error for both targets, in the other the installation fails.
\<close>

definition schedule_example :: Schedule where
  "schedule_example =
     \<lparr>installResults = [(InstallResult.Success [], False)],
      duringInstall = [],
      rounds =
        [[ElmMakeDone 0 (ElmMakeError (CompileErrors [(''/app/src/Shared.elm'', [''TYPE MISMATCH''])])),
          ElmMakeDone 1 (ElmMakeError (CompileErrors [(''/app/src/Shared.elm'', [''TYPE MISMATCH''])]))]]\<rparr>"

definition schedule_install_fails :: Schedule where
  "schedule_install_fails =
     \<lparr>installResults = [(CreatingDummyFailed ''EACCES'', False)],
      duringInstall = [],
      rounds = []\<rparr>"

text \<open>
  Passes of the loop from \<open>state_dirty\<close>, where the first target is dirty and has a
  postprocess command: the target is marked dirty again while its postprocess runs; it is
  marked dirty again while \<open>elm make\<close> runs; a full restart is requested while its
  postprocess runs.
\<close>

definition schedule_dirty_during_postprocess :: "RoundEvent list" where
  "schedule_dirty_during_postprocess =
     [ElmMakeDone 0 OutputStatus.Success,
      Meanwhile (MarkDirty 0),
      PostprocessDone 0 (PostprocessNonZeroExit (ExitCode 1) [] ''boom'' ''node postprocess.js'')]"

definition schedule_dirty_during_elm_make :: "RoundEvent list" where
  "schedule_dirty_during_elm_make =
     [Meanwhile (MarkDirty 0),
      ElmMakeDone 0 (OutputStatus.ElmNotFoundError ''elm'')]"

definition schedule_restart_during_postprocess :: Schedule where
  "schedule_restart_during_postprocess =
     \<lparr>installResults = [],
      duringInstall = [],
      rounds =
        [[ElmMakeDone 0 OutputStatus.Success,
          Meanwhile RequestFullRestart,
          PostprocessDone 0 (PostprocessNonZeroExit (ExitCode 1) [] ''boom'' ''node postprocess.js'')]]\<rparr>"

section \<open>Proofs: \<open>parseArgs\<close>\<close>

lemma parseArgs_loop_vars:
  "foldl (parseArgs_step v) vars args =
     \<lparr>v_debug = (v_debug vars \<or> hasFlag ''--debug'' args),
      v_optimize = (v_optimize vars \<or> hasFlag ''--optimize'' args),
      v_badArgs = v_badArgs vars @ nonFlagBadArgs v args,
      v_outputs = v_outputs vars @ nonFlagOutputs v args\<rparr>"
proof (induction args arbitrary: vars)
  case Nil
  show ?case by (simp add: hasFlag_def nonFlagBadArgs_def nonFlagOutputs_def)
next
  case (Cons a args)
  show ?case
    unfolding foldl_Cons Cons.IH
    by (auto simp: parseArgs_step_def hasFlag_def nonFlagBadArgs_def nonFlagOutputs_def
        isFlag_def)
qed

lemma parseArgs_loop_init:
  "foldl (parseArgs_step v) parseArgs_init args =
     \<lparr>v_debug = hasFlag ''--debug'' args,
      v_optimize = hasFlag ''--optimize'' args,
      v_badArgs = nonFlagBadArgs v args,
      v_outputs = nonFlagOutputs v args\<rparr>"
  by (simp add: parseArgs_loop_vars parseArgs_init_def)

lemma nonFlagBadArgs_empty_iff:
  "nonFlagBadArgs v args = [] \<longleftrightarrow>
     (\<forall>arg \<in> set args. isFlag arg \<or> v (theArg arg))"
  by (auto simp: nonFlagBadArgs_def filter_empty_conv)

text \<open>
  C5.  For every argument list: in run mode \<open>make\<close> the result is \<open>DebugOptimizeClash\<close>
  exactly when both \<open>--debug\<close> and \<open>--optimize\<close> occur; in run mode \<open>hot\<close> it is
  \<open>DebugOptimizeForHot\<close> exactly when one of them occurs; when neither of these
  rejections applies the result is \<open>BadArgs\<close> exactly when some non-flag argument is not
  a valid output name, and it then carries the non-empty list of those arguments; and
  otherwise it is \<open>Success\<close> with mode \<open>debug\<close> when \<open>--debug\<close> was given, \<open>optimize\<close>
  when \<open>--optimize\<close> was given and \<open>standard\<close> when neither was.
\<close>

theorem parseArgs_cases:
  fixes v :: "string \<Rightarrow> bool" and args :: "CliArg list"
  defines "d \<equiv> hasFlag ''--debug'' args"
    and "opt \<equiv> hasFlag ''--optimize'' args"
    and "bad \<equiv> nonFlagBadArgs v args"
  shows
    "(parseArgs v RunMode.make args = DebugOptimizeClash \<longleftrightarrow> d \<and> opt) \<and>
     (parseArgs v hot args = DebugOptimizeForHot \<longleftrightarrow> d \<or> opt) \<and>
     parseArgs v RunMode.make args \<noteq> DebugOptimizeForHot \<and>
     parseArgs v hot args \<noteq> DebugOptimizeClash \<and>
     (\<not> (d \<and> opt) \<longrightarrow>
        ((\<exists>bs. parseArgs v RunMode.make args = BadArgs bs) \<longleftrightarrow>
           (\<exists>arg \<in> set args. \<not> isFlag arg \<and> \<not> v (theArg arg))) \<and>
        (bad \<noteq> [] \<longrightarrow> parseArgs v RunMode.make args = BadArgs bad) \<and>
        (bad = [] \<longrightarrow> parseArgs v RunMode.make args =
           ParseArgsSuccess (if d then debug else if opt then optimize else standard)
             (nonFlagOutputs v args))) \<and>
     (\<not> (d \<or> opt) \<longrightarrow>
        ((\<exists>bs. parseArgs v hot args = BadArgs bs) \<longleftrightarrow>
           (\<exists>arg \<in> set args. \<not> isFlag arg \<and> \<not> v (theArg arg))) \<and>
        (bad \<noteq> [] \<longrightarrow> parseArgs v hot args = BadArgs bad) \<and>
        (bad = [] \<longrightarrow> parseArgs v hot args = ParseArgsSuccess standard (nonFlagOutputs v args)))"
  unfolding d_def opt_def bad_def
  by (auto simp: parseArgs_def parseArgs_loop_init Let_def nonFlagBadArgs_empty_iff)

theorem parseArgs_cases_witness:
  "parseArgs (\<lambda>s. s = ''app'') RunMode.make [CliArg ''--optimize'', CliArg ''app'']
     = ParseArgsSuccess optimize [''app''] \<and>
   parseArgs (\<lambda>s. s = ''app'') RunMode.make [CliArg ''--debug'', CliArg ''nope'', CliArg ''app'']
     = BadArgs [CliArg ''nope''] \<and>
   parseArgs (\<lambda>s. s = ''app'') hot [CliArg ''app'']
     = ParseArgsSuccess standard [''app'']"
  using parseArgs_cases [of "\<lambda>s. s = ''app''" "[CliArg ''--optimize'', CliArg ''app'']"]
    parseArgs_cases [of "\<lambda>s. s = ''app''" "[CliArg ''--debug'', CliArg ''nope'', CliArg ''app'']"]
    parseArgs_cases [of "\<lambda>s. s = ''app''" "[CliArg ''app'']"]
  by (simp add: hasFlag_def nonFlagBadArgs_def nonFlagOutputs_def isFlag_def)

section \<open>Proofs: the dispatch queue\<close>


lemma callDispatchAll_queue:
  "dispatch srv = None \<Longrightarrow>
   callDispatchAll msgs (srv, r) = (srv\<lparr>msgQueue := msgQueue srv @ msgs\<rparr>, r)"
proof (induction msgs arbitrary: srv)
  case Nil
  show ?case by (simp add: callDispatchAll_def)
next
  case (Cons m msgs)
  have "callDispatchAll (m # msgs) (srv, r) = callDispatchAll msgs (dispatchToQueue m srv, r)"
    using Cons.prems by (simp add: callDispatchAll_def callDispatch_def)
  also have "\<dots> = ((dispatchToQueue m srv)\<lparr>msgQueue := msgQueue (dispatchToQueue m srv) @ msgs\<rparr>, r)"
    using Cons.prems by (intro Cons.IH) (simp add: dispatchToQueue_def)
  finally show ?case by (simp add: dispatchToQueue_def)
qed

lemma callDispatchAll_installed:
  "dispatch srv = Some f \<Longrightarrow>
   callDispatchAll msgs (srv, r) = (srv, foldl (\<lambda>r' msg. f msg r') r msgs)"
  by (induction msgs arbitrary: r) (simp_all add: callDispatchAll_def callDispatch_def)

text \<open>
  C9.  \<open>setDispatch\<close> hands the queued messages to the function it installs, in the
  order they arrived, and leaves the queue as it is.  So in a run where the messages
  \<open>before\<close> are queued, \<open>f1\<close> is installed, the messages \<open>direct\<close> arrive,
  \<open>unsetDispatch\<close> is called, the messages \<open>between\<close> are queued and \<open>f2\<close> is
  installed, \<open>f1\<close> receives \<open>before\<close> and then \<open>direct\<close>, and \<open>f2\<close> receives
  \<open>before\<close> a second time, followed by \<open>between\<close>.
\<close>

theorem setDispatch_delivers_queue_again:
  fixes f1 f2 :: "'msg \<Rightarrow> 'r \<Rightarrow> 'r"
    and before direct between :: "'msg list" and p :: int and r0 :: 'r
  defines "st1 \<equiv> callDispatchAll before (newWebSocketServer p, r0)"
  defines "st2 \<equiv> setDispatch f1 st1"
  defines "st3 \<equiv> callDispatchAll direct st2"
  defines "st4 \<equiv> (unsetDispatch (fst st3), snd st3)"
  defines "st5 \<equiv> callDispatchAll between st4"
  defines "st6 \<equiv> setDispatch f2 st5"
  shows "msgQueue (fst st1) = before \<and> snd st1 = r0 \<and>
         snd st2 = foldl (\<lambda>r m. f1 m r) r0 before \<and>
         snd st3 = foldl (\<lambda>r m. f1 m r) (foldl (\<lambda>r m. f1 m r) r0 before) direct \<and>
         msgQueue (fst st3) = before \<and>
         msgQueue (fst st5) = before @ between \<and> snd st5 = snd st3 \<and>
         msgQueue (fst st6) = before @ between \<and>
         snd st6 = foldl (\<lambda>r m. f2 m r) (snd st3) (before @ between)"
proof -
  have 1: "st1 = ((newWebSocketServer p)\<lparr>msgQueue := before\<rparr>, r0)"
    unfolding st1_def by (simp add: callDispatchAll_queue newWebSocketServer_def)
  have 2: "st2 = ((newWebSocketServer p)\<lparr>msgQueue := before, dispatch := Some f1\<rparr>,
                  foldl (\<lambda>r m. f1 m r) r0 before)"
    unfolding st2_def 1 by (simp add: setDispatch_def newWebSocketServer_def)
  have 3: "st3 = (fst st2, foldl (\<lambda>r m. f1 m r) (snd st2) direct)"
    unfolding st3_def using callDispatchAll_installed [of "fst st2" f1 direct "snd st2"]
    by (simp add: 2)
  have 4: "st4 = ((newWebSocketServer p)\<lparr>msgQueue := before\<rparr>, snd st3)"
    unfolding st4_def 3 2 by (simp add: unsetDispatch_def newWebSocketServer_def)
  have 5: "st5 = ((newWebSocketServer p)\<lparr>msgQueue := before @ between\<rparr>, snd st3)"
    unfolding st5_def 4 by (simp add: callDispatchAll_queue newWebSocketServer_def)
  have 6: "st6 = ((newWebSocketServer p)\<lparr>msgQueue := before @ between, dispatch := Some f2\<rparr>,
                  foldl (\<lambda>r m. f2 m r) (snd st3) (before @ between))"
    unfolding st6_def 5 by (simp add: setDispatch_def newWebSocketServer_def)
  show ?thesis
    by (simp add: 1 2 3 5 6 newWebSocketServer_def)
qed

theorem setDispatch_delivers_queue_again_witness:
  "snd (setDispatch (\<lambda>m log. log @ [(2::nat, m)])
     (callDispatchAll [''c'']
       (unsetDispatch (fst (callDispatchAll [''x'']
          (setDispatch (\<lambda>m log. log @ [(1::nat, m)])
            (callDispatchAll [''a'', ''b''] (newWebSocketServer 8000, []))))),
        snd (callDispatchAll [''x'']
          (setDispatch (\<lambda>m log. log @ [(1::nat, m)])
            (callDispatchAll [''a'', ''b''] (newWebSocketServer 8000, [])))))))
   = [(1, ''a''), (1, ''b''), (1, ''x''), (2, ''a''), (2, ''b''), (2, ''c'')]"
  using setDispatch_delivers_queue_again
    [of "[''a'', ''b'']" 8000 "[]" "\<lambda>m log. log @ [(1::nat, m)]" "[''x'']" "[''c'']"
        "\<lambda>m log. log @ [(2::nat, m)]"]
  by (simp add: callDispatchAll_def callDispatch_def setDispatch_def unsetDispatch_def
      newWebSocketServer_def dispatchToQueue_def)


section \<open>Proofs: the worker pool\<close>

lemma terminate_eq:
  "terminate pool_onTerminated w s =
     (case workerStatus s w of
        PostprocessWorkerStatus.Idle \<Rightarrow> s\<lparr>workerStatus := (workerStatus s)(w := Terminated),
                  workers := removeAll w (workers s),
                  threadTerminateCalls := threadTerminateCalls s @ [w]\<rparr>
      | PostprocessWorkerStatus.Busy p \<Rightarrow> reject p WORKER_TERMINATED
                  (s\<lparr>workerStatus := (workerStatus s)(w := Terminated),
                     workers := removeAll w (workers s),
                     threadTerminateCalls := threadTerminateCalls s @ [w]\<rparr>)
      | Terminated \<Rightarrow> s)"
  by (simp add: terminate_def terminate_start_def terminate_finish_def pool_onTerminated_def
      Let_def split: PostprocessWorkerStatus.splits)

lemma reject_fields [simp]:
  "workerStatus (reject p e s) = workerStatus s"
  "workers (reject p e s) = workers s"
  "threadTerminateCalls (reject p e s) = threadTerminateCalls s"
  "calculateMax (reject p e s) = calculateMax s"
  by (simp_all add: reject_def split: Promise.splits)

lemma reject_promises:
  "promises (reject p e s) q =
     (if q = p \<and> promises s p = Pending then Rejected e else promises s q)"
  by (simp add: reject_def split: Promise.splits)

text \<open>
  C10.  \<open>terminate\<close> on a worker of the pool that is \<open>Idle\<close> or \<open>Busy\<close> sets its
  status to \<open>Terminated\<close>, calls \<open>onTerminated\<close> (which removes it from the pool) and
  ends its thread; when the worker was \<open>Busy\<close> the pending promise is then rejected
  with \<open>WORKER_TERMINATED\<close>; on a \<open>Terminated\<close> worker it changes nothing, so a
  second call has no effect.
\<close>

theorem PostprocessWorker_terminate:
  fixes s :: "'a PoolState" and w :: nat
  defines "s' \<equiv> terminate pool_onTerminated w s"
  shows
    "(workerStatus s w \<noteq> Terminated \<longrightarrow>
        workerStatus s' w = Terminated \<and>
        workers s' = removeAll w (workers s) \<and> w \<notin> set (workers s') \<and>
        threadTerminateCalls s' = threadTerminateCalls s @ [w]) \<and>
     (workerStatus s w = PostprocessWorkerStatus.Idle \<longrightarrow> promises s' = promises s) \<and>
     (\<forall>p. workerStatus s w = PostprocessWorkerStatus.Busy p \<longrightarrow>
        (promises s p = Pending \<longrightarrow> promises s' p = Rejected WORKER_TERMINATED) \<and>
        (promises s p \<noteq> Pending \<longrightarrow> promises s' p = promises s p) \<and>
        (\<forall>q. q \<noteq> p \<longrightarrow> promises s' q = promises s q)) \<and>
     (workerStatus s w = Terminated \<longrightarrow> s' = s) \<and>
     (\<forall>w'. w' \<noteq> w \<longrightarrow> workerStatus s' w' = workerStatus s w') \<and>
     terminate pool_onTerminated w s' = s' \<and>
     (\<forall>onTerminated. workerStatus s w \<noteq> Terminated \<longrightarrow>
        fst (terminate_start onTerminated w s) =
          (onTerminated w (s\<lparr>workerStatus := (workerStatus s)(w := Terminated)\<rparr>))
            \<lparr>threadTerminateCalls :=
               threadTerminateCalls
                 (onTerminated w (s\<lparr>workerStatus := (workerStatus s)(w := Terminated)\<rparr>)) @ [w]\<rparr>)"
proof -
  have st: "workerStatus s' w = Terminated"
    unfolding s'_def terminate_eq by (simp split: PostprocessWorkerStatus.splits)
  have idem: "terminate pool_onTerminated w s' = s'"
    using st by (simp add: terminate_eq [of w s'])
  have cb: "\<forall>onTerminated. workerStatus s w \<noteq> Terminated \<longrightarrow>
        fst (terminate_start onTerminated w s) =
          (onTerminated w (s\<lparr>workerStatus := (workerStatus s)(w := Terminated)\<rparr>))
            \<lparr>threadTerminateCalls :=
               threadTerminateCalls
                 (onTerminated w (s\<lparr>workerStatus := (workerStatus s)(w := Terminated)\<rparr>)) @ [w]\<rparr>"
    by (simp add: terminate_start_def Let_def split: PostprocessWorkerStatus.splits)
  have rest: "(workerStatus s w \<noteq> Terminated \<longrightarrow>
        workerStatus s' w = Terminated \<and>
        workers s' = removeAll w (workers s) \<and> w \<notin> set (workers s') \<and>
        threadTerminateCalls s' = threadTerminateCalls s @ [w]) \<and>
     (workerStatus s w = PostprocessWorkerStatus.Idle \<longrightarrow> promises s' = promises s) \<and>
     (\<forall>p. workerStatus s w = PostprocessWorkerStatus.Busy p \<longrightarrow>
        (promises s p = Pending \<longrightarrow> promises s' p = Rejected WORKER_TERMINATED) \<and>
        (promises s p \<noteq> Pending \<longrightarrow> promises s' p = promises s p) \<and>
        (\<forall>q. q \<noteq> p \<longrightarrow> promises s' q = promises s q)) \<and>
     (workerStatus s w = Terminated \<longrightarrow> s' = s) \<and>
     (\<forall>w'. w' \<noteq> w \<longrightarrow> workerStatus s' w' = workerStatus s w')"
    unfolding s'_def terminate_eq
    by (cases "workerStatus s w") (simp_all add: reject_promises)
  show ?thesis using rest idem cb by blast
qed

theorem PostprocessWorker_terminate_witness:
  "workerStatus pool_example 0 = PostprocessWorkerStatus.Busy 7 \<and>
   promises pool_example 7 = Pending \<and>
   workerStatus (terminate pool_onTerminated 0 pool_example) 0 = Terminated \<and>
   workers (terminate pool_onTerminated 0 pool_example) = [1, 2] \<and>
   promises (terminate pool_onTerminated 0 pool_example) 7 = Rejected WORKER_TERMINATED \<and>
   workerStatus pool_example 2 = PostprocessWorkerStatus.Idle \<and>
   workerStatus (terminate pool_onTerminated 2 pool_example) 2 = Terminated \<and>
   workers (terminate pool_onTerminated 2 pool_example) = [0, 1] \<and>
   terminate pool_onTerminated 0 (terminate pool_onTerminated 0 pool_example)
     = terminate pool_onTerminated 0 pool_example"
  using PostprocessWorker_terminate [of pool_example 0]
    PostprocessWorker_terminate [of pool_example 2]
  by (simp add: pool_example_def)


lemma terminate_start_idle:
  assumes "workerStatus s w = PostprocessWorkerStatus.Idle"
  shows "terminate_start pool_onTerminated w s = (killed [w] s, None)"
proof -
  have a: "(workerStatus s)(w := Terminated) =
             (\<lambda>v. if v = w then Terminated else workerStatus s v)"
    by (simp add: fun_eq_iff)
  have b: "removeAll w (workers s) = filter (\<lambda>v. v \<noteq> w) (workers s)"
    by (induction "workers s") (auto simp: removeAll_filter_not_eq intro: filter_cong)
  show ?thesis
    using assms
    by (simp add: terminate_start_def pool_onTerminated_def killed_def Let_def a b)
qed

lemma killed_killed: "killed ws (killed vs s) = killed (vs @ ws) s"
  by (auto simp: killed_def fun_eq_iff intro!: filter_cong)

lemma terminate_starts_idle:
  "distinct ws \<Longrightarrow> \<forall>w \<in> set ws. workerStatus s w = PostprocessWorkerStatus.Idle \<Longrightarrow>
   foldl (\<lambda>(s', ks) w. let (s'', k) = terminate_start pool_onTerminated w s' in (s'', ks @ [k]))
     (s, ks) ws = (killed ws s, ks @ replicate (length ws) None)"
proof (induction ws arbitrary: s ks)
  case Nil
  show ?case by (simp add: killed_def)
next
  case (Cons w ws)
  have w: "workerStatus s w = PostprocessWorkerStatus.Idle" using Cons.prems by simp
  have idle': "\<forall>v \<in> set ws. workerStatus (killed [w] s) v = PostprocessWorkerStatus.Idle"
    using Cons.prems by (auto simp: killed_def)
  have "foldl (\<lambda>(s', ks) w. let (s'', k) = terminate_start pool_onTerminated w s' in (s'', ks @ [k]))
          (s, ks) (w # ws)
        = foldl (\<lambda>(s', ks) w. let (s'', k) = terminate_start pool_onTerminated w s' in (s'', ks @ [k]))
          (killed [w] s, ks @ [None]) ws"
    by (simp add: terminate_start_idle [OF w])
  also have "\<dots> = (killed ws (killed [w] s), (ks @ [None]) @ replicate (length ws) None)"
    using Cons.prems idle' by (intro Cons.IH) simp_all
  finally show ?case
    by (simp add: killed_killed replicate_append_same)
qed

lemma finish_all_None:
  "foldl (\<lambda>s' k. terminate_finish k s') s (replicate n None) = s"
  by (induction n) (simp_all add: terminate_finish_def)

lemma terminate_all_idle:
  "distinct ws \<Longrightarrow> \<forall>w \<in> set ws. workerStatus s w = PostprocessWorkerStatus.Idle \<Longrightarrow> terminate_all ws s = killed ws s"
  using terminate_starts_idle [of ws s "[]"]
  by (simp add: terminate_all_def terminate_starts_def finish_all_None)

lemma limit_eq:
  assumes "distinct (workers s)"
  shows "limit s =
    killed (drop (length (filter (isIdle s) (workers s)) - nat (excess s))
              (filter (isIdle s) (workers s))) s"
proof (cases "calculateMax s ()")
  case Infinity
  then show ?thesis by (simp add: limit_def excess_def killed_def)
next
  case (Num cap)
  let ?idle = "filter (isIdle s) (workers s)"
  show ?thesis
  proof (cases "int (length (workers s)) - cap > 0")
    case True
    have d: "distinct (slice_last (int (length (workers s)) - cap) ?idle)"
      using assms by (simp add: slice_last_def)
    have i: "\<forall>w \<in> set (slice_last (int (length (workers s)) - cap) ?idle). workerStatus s w = PostprocessWorkerStatus.Idle"
      by (auto simp: slice_last_def isIdle_def dest!: in_set_dropD)
    show ?thesis
      using Num True terminate_all_idle [OF d i]
      by (simp add: limit_def excess_def Let_def slice_last_def)
  next
    case False
    then have "nat (excess s) = 0" using Num by (simp add: excess_def)
    then show ?thesis using Num False by (simp add: limit_def Let_def killed_def)
  qed
qed


lemma filter_in_drop:
  assumes "distinct ys"
  shows "filter (\<lambda>x. x \<in> set (drop k ys)) ys = drop k ys"
    and "filter (\<lambda>x. x \<notin> set (drop k ys)) ys = take k ys"
proof -
  have d: "set (take k ys) \<inter> set (drop k ys) = {}"
    using assms by (metis append_take_drop_id distinct_append)
  have t: "filter (\<lambda>x. x \<in> set (drop k ys)) (take k ys) = []"
    using d by (auto simp: filter_empty_conv)
  have t': "filter (\<lambda>x. x \<notin> set (drop k ys)) (take k ys) = take k ys"
    using d by (auto simp: filter_id_conv)
  have "filter (\<lambda>x. x \<in> set (drop k ys)) (take k ys @ drop k ys) = drop k ys"
    unfolding filter_append t by simp
  then show "filter (\<lambda>x. x \<in> set (drop k ys)) ys = drop k ys" by simp
  have "filter (\<lambda>x. x \<notin> set (drop k ys)) (take k ys @ drop k ys) = take k ys"
    unfolding filter_append t' by (simp add: filter_empty_conv)
  then show "filter (\<lambda>x. x \<notin> set (drop k ys)) ys = take k ys" by simp
qed

lemma filter_sub_in_drop:
  assumes "distinct xs"
  shows "filter (\<lambda>x. x \<in> set (drop k (filter P xs))) xs = drop k (filter P xs)"
    and "filter (\<lambda>x. x \<notin> set (drop k (filter P xs)) \<and> P x) xs = take k (filter P xs)"
proof -
  have d: "distinct (filter P xs)" using assms by simp
  have "filter (\<lambda>x. x \<in> set (drop k (filter P xs))) xs =
        filter (\<lambda>x. x \<in> set (drop k (filter P xs))) (filter P xs)"
    unfolding filter_filter by (rule filter_cong) (auto dest: in_set_dropD)
  then show "filter (\<lambda>x. x \<in> set (drop k (filter P xs))) xs = drop k (filter P xs)"
    using filter_in_drop(1) [OF d] by simp
  have "filter (\<lambda>x. x \<notin> set (drop k (filter P xs)) \<and> P x) xs =
        filter (\<lambda>x. x \<notin> set (drop k (filter P xs))) (filter P xs)"
    unfolding filter_filter by (rule filter_cong) auto
  then show "filter (\<lambda>x. x \<notin> set (drop k (filter P xs)) \<and> P x) xs = take k (filter P xs)"
    using filter_in_drop(2) [OF d] by simp
qed

text \<open>
  C4, as amended.  \<open>limit\<close> terminates only workers whose status is \<open>Idle\<close>.  With
  \<open>excess\<close> the number of workers (idle and busy) above the cap that \<open>calculateMax\<close>
  returns, it terminates \<open>min excess (number of idle workers)\<close> workers: the newest
  that many of the idle ones, in the order of the pool's set, so that the idle workers
  that stay are the oldest ones.  PostprocessWorkerStatus.Busy workers are never terminated, so fewer than
  \<open>excess\<close> workers go when too few are idle.
\<close>

theorem limit_terminates_newest_idle:
  fixes s :: "'a PoolState"
  assumes "distinct (workers s)"
  defines "idle \<equiv> filter (isIdle s) (workers s)"
  defines "n \<equiv> min (nat (excess s)) (length idle)"
  shows
    "terminatedBy s (limit s) = drop (length idle - n) idle \<and>
     length (terminatedBy s (limit s)) = n \<and>
     (\<forall>w. workerStatus (limit s) w \<noteq> workerStatus s w \<longrightarrow>
        workerStatus s w = PostprocessWorkerStatus.Idle \<and> workerStatus (limit s) w = Terminated) \<and>
     workers (limit s) = filter (\<lambda>w. w \<notin> set (terminatedBy s (limit s))) (workers s) \<and>
     filter (isIdle (limit s)) (workers (limit s)) = take (length idle - n) idle \<and>
     promises (limit s) = promises s"
proof -
  define K where "K = drop (length idle - n) idle"
  have k: "length idle - nat (excess s) = length idle - n"
    by (simp add: n_def)
  have lim: "limit s = killed K s"
    unfolding K_def idle_def k [unfolded idle_def, symmetric]
    by (rule limit_eq [OF assms(1)])
  have Kidle: "\<And>w. w \<in> set K \<Longrightarrow> workerStatus s w = PostprocessWorkerStatus.Idle"
    by (auto simp: K_def idle_def isIdle_def dest!: in_set_dropD)
  have "terminatedBy s (killed K s) = filter (\<lambda>w. w \<in> set K) (workers s)"
    unfolding terminatedBy_def by (rule filter_cong) (auto simp: killed_def dest: Kidle)
  also have "\<dots> = K"
    unfolding K_def idle_def by (rule filter_sub_in_drop(1) [OF assms(1)])
  finally have tb: "terminatedBy s (limit s) = K" by (simp add: lim)
  have len: "length K = n" by (simp add: K_def n_def)
  have only: "\<forall>w. workerStatus (limit s) w \<noteq> workerStatus s w \<longrightarrow>
        workerStatus s w = PostprocessWorkerStatus.Idle \<and> workerStatus (limit s) w = Terminated"
    by (auto simp: lim killed_def dest: Kidle)
  have ws: "workers (limit s) = filter (\<lambda>w. w \<notin> set K) (workers s)"
    by (simp add: lim killed_def)
  have "filter (isIdle (limit s)) (workers (limit s)) =
        filter (\<lambda>w. w \<notin> set K \<and> isIdle s w) (workers s)"
    unfolding ws filter_filter by (rule filter_cong) (auto simp: lim killed_def isIdle_def)
  also have "\<dots> = take (length idle - n) idle"
    unfolding K_def idle_def by (rule filter_sub_in_drop(2) [OF assms(1)])
  finally have surv: "filter (isIdle (limit s)) (workers (limit s)) = take (length idle - n) idle" .
  have pr: "promises (limit s) = promises s" by (simp add: lim killed_def)
  have 1: "terminatedBy s (limit s) = drop (length idle - n) idle"
    using tb by (simp add: K_def)
  have 2: "length (terminatedBy s (limit s)) = n"
    using tb len by simp
  have 4: "workers (limit s) = filter (\<lambda>w. w \<notin> set (terminatedBy s (limit s))) (workers s)"
    using ws tb by simp
  show ?thesis
    by (rule conjI [OF 1 conjI [OF 2 conjI [OF only conjI [OF 4 conjI [OF surv pr]]]]])
qed

theorem limit_terminates_newest_idle_witness:
  "distinct (workers pool_example2) \<and>
   excess pool_example2 = 2 \<and>
   terminatedBy pool_example2 (limit pool_example2) = [2, 3] \<and>
   workers (limit pool_example2) = [0, 1] \<and>
   filter (isIdle (limit pool_example2)) (workers (limit pool_example2)) = [0]"
proof -
  have d: "distinct (workers pool_example2)" by (simp add: pool_example2_def)
  show ?thesis
    using limit_terminates_newest_idle [OF d]
    by (simp add: pool_example2_def excess_def limit_def terminatedBy_def isIdle_def
        slice_last_def terminate_all_def terminate_starts_def terminate_start_def
        terminate_finish_def pool_onTerminated_def Let_def)
qed

text \<open>
  C4 as stated fails: with two busy workers, one idle worker and a cap of 1 the excess
  is 2, and \<open>limit\<close> terminates one worker.
\<close>

theorem limit_excess_counterexample:
  "workers pool_example = [0, 1, 2] \<and>
   calculateMax pool_example () = Num 1 \<and>
   excess pool_example = 2 \<and>
   terminatedBy pool_example (limit pool_example) = [2] \<and>
   int (length (terminatedBy pool_example (limit pool_example))) \<noteq> excess pool_example"
  by (simp add: pool_example_def excess_def limit_def terminatedBy_def isIdle_def slice_last_def
      terminate_all_def terminate_starts_def terminate_start_def terminate_finish_def
      pool_onTerminated_def Let_def)

section \<open>Proofs: the hot orchestrator\<close>

text \<open>
  C8.  For a \<open>GotWatcherEvent\<close> whose path does not end in \<open>.elm\<close> and whose basename
  is neither \<open>elm.json\<close> nor \<open>elm-tooling.json\<close>, \<open>onWatcherEvent\<close> returns
  \<open>undefined\<close> and \<open>update\<close> returns the model as it is with no command: the next
  action is kept, no target is marked dirty and no timer is set.
\<close>

theorem update_ignores_other_files:
  assumes "\<not> endsWith absolutePathString ''.elm''"
    and "basename absolutePathString \<noteq> ''elm.json''"
    and "basename absolutePathString \<noteq> ''elm-tooling.json''"
  shows "onWatcherEvent ext date proj eventName absolutePathString (nextAction model) = None \<and>
         update ext proj (GotWatcherEvent date eventName absolutePathString) model = (model, [])"
  using assms by (simp add: onWatcherEvent_def)

theorem update_ignores_other_files_witness:
  "\<not> endsWith ''/app/README.md'' ''.elm'' \<and>
   basename ''/app/README.md'' = ''README.md'' \<and>
   update ext_example project_example (GotWatcherEvent 5 changed ''/app/README.md'') model_compiling
     = (model_compiling, [])"
proof -
  have 1: "\<not> endsWith ''/app/README.md'' ''.elm''" by (simp add: endsWith_def)
  have 2: "basename ''/app/README.md'' = ''README.md''" by (simp add: basename_def)
  show ?thesis
    using update_ignores_other_files [OF 1, of ext_example 5 project_example changed model_compiling]
      1 2 by simp
qed

text \<open>
  C2 as stated fails: a \<open>changed\<close> event for a file named \<open>elm-watch.json\<close> while
  compiling changes nothing and gives no command, and the timer that follows finds no
  action.  \<open>elm-watch.json\<close> is the file that this program writes its port and modes to;
  the configuration file that it watches is \<open>elm-tooling.json\<close>.
\<close>

theorem elm_watch_json_change_counterexample:
  "update ext_example project_example (GotWatcherEvent 5 changed ''/app/elm-watch.json'')
     model_compiling = (model_compiling, []) \<and>
   update ext_example project_example (SleepBeforeNextActionDone 15) model_compiling
     = (model_compiling, [])"
  by (simp add: onWatcherEvent_def endsWith_def basename_def model_compiling_def
      runNextAction_def)


lemma find_None_image:
  "find (\<lambda>x. f x = k) xs = None \<longleftrightarrow> k \<notin> f ` set xs"
  by (auto simp: find_None_iff)

lemma find_pair_None_image:
  "find (\<lambda>(a, b). f a = k) xs = None \<longleftrightarrow> k \<notin> f ` set (map fst xs)"
  by (force simp: find_None_iff)

lemma fromEntries_fold:
  "foldl (\<lambda>obj (key, v). obj(key \<mapsto> v)) m entries = m ++ map_of (rev entries)"
proof (induction entries arbitrary: m)
  case Nil
  show ?case by simp
next
  case (Cons e entries)
  obtain k v where e: "e = (k, v)" by (cases e)
  have "foldl (\<lambda>obj (key, v). obj(key \<mapsto> v)) m (e # entries) =
        foldl (\<lambda>obj (key, v). obj(key \<mapsto> v)) (m(k \<mapsto> v)) entries"
    unfolding e by (simp only: foldl_Cons prod.case)
  also have "\<dots> = m(k \<mapsto> v) ++ map_of (rev entries)"
    by (rule Cons.IH)
  also have "\<dots> = m ++ map_of (rev entries @ [(k, v)])"
    by (auto simp: fun_eq_iff map_add_def map_of_append split: option.splits)
  also have "\<dots> = m ++ map_of (rev (e # entries))"
    unfolding e by (simp only: rev.simps)
  finally show ?case .
qed

lemma Object_fromEntries_map_of:
  "Object_fromEntries entries = map_of (rev entries)"
  by (simp add: Object_fromEntries_def fromEntries_fold)

text \<open>
  Every value of \<open>Object.fromEntries(params)\<close> is a string, so a property of it reads
  as \<open>undefined\<close> or as a string.
\<close>

lemma getProperty_paramsObject:
  "getProperty (paramsObject params) key = JsUndefined \<or>
   (\<exists>s. getProperty (paramsObject params) key = JsString s)"
proof (cases "paramsObject params key")
  case None
  then show ?thesis by (simp add: getProperty_def)
next
  case (Some v)
  then have "(key, v) \<in> set (map (\<lambda>(key, v). (key, JsString v)) params)"
    unfolding paramsObject_def Object_fromEntries_map_of
    using map_of_SomeD by fastforce
  then obtain s where "v = JsString s" by auto
  then show ?thesis using Some by (simp add: getProperty_def)
qed

text \<open>\<open>Decode.number\<close> throws for each of them.\<close>

lemma Decode_number_paramsObject:
  "\<exists>got. Decode_number (getProperty (paramsObject params) key)
           = Inl (DecoderError (ExpectedNumber got) [])"
  using getProperty_paramsObject [of params key]
  by (auto simp: Decode_number_def)

lemma WebSocketConnectedParams_throws:
  "\<exists>error. WebSocketConnectedParams (paramsObject params) = Inl error"
proof -
  obtain got where n: "Decode_number (getProperty (paramsObject params) ''compiledTimestamp'')
           = Inl (DecoderError (ExpectedNumber got) [])"
    using Decode_number_paramsObject by blast
  show ?thesis
    unfolding WebSocketConnectedParams_def n
    by (simp split: sum.splits)
qed

text \<open>
  C1.  The claim says that \<open>parseWebSocketConnectRequestUrl\<close> goes on to compare the
  version and to look up the output when the parameters decode.  In the code they never
  decode: the decoder wants \<open>compiledTimestamp\<close> to be a number, and every value of
  \<open>Object.fromEntries(new URLSearchParams(...))\<close> is a string.  So for every project
  and every query after \<open>/?\<close>, whatever its parameters are, the result is
  \<open>ParamsDecodeError\<close>, and \<open>update\<close> keeps the model, adds the connection with the
  \<open>OutputPathError\<close> sentinel and sends the text for a parameter error to the client;
  for every URL the result is \<open>BadUrl\<close> or \<open>ParamsDecodeError\<close>.  The results
  \<open>WrongVersion\<close>, \<open>OutputNotFound\<close>, \<open>OutputDisabled\<close> and \<open>Success\<close> are never
  returned.
\<close>

theorem parseWebSocketConnectRequestUrl_never_decodes:
  "(\<exists>error.
      parseWebSocketConnectRequestUrl ext proj (''/?'' @ query)
        = ParamsDecodeError error (''/?'' @ query) \<and>
      update ext proj (WebSocketConnected date ws (''/?'' @ query)) model
        = (model,
           [WebSocketAdd \<lparr>webSocket = ws, outputPath = OutputPathError, priority = date\<rparr>,
            WebSocketSend ws (StatusChanged (ClientError
              (webSocketParamsDecodeError ext error (''/?'' @ query))))])) \<and>
   (parseWebSocketConnectRequestUrl ext proj urlString = BadUrl ''/?'' urlString \<or>
    (\<exists>error. parseWebSocketConnectRequestUrl ext proj urlString
                = ParamsDecodeError error urlString))"
proof -
  define url where "url = ''/?'' @ query"
  have s: "startsWith url ''/?''" by (simp add: startsWith_def url_def)
  obtain error where e:
    "WebSocketConnectedParams (paramsObject (urlSearchParams ext (drop 2 url))) = Inl error"
    using WebSocketConnectedParams_throws by blast
  have p: "parseWebSocketConnectRequestUrl ext proj url = ParamsDecodeError error url"
    unfolding parseWebSocketConnectRequestUrl_def using s e by simp
  have u: "update ext proj (WebSocketConnected date ws url) model
        = (model,
           [WebSocketAdd \<lparr>webSocket = ws, outputPath = OutputPathError, priority = date\<rparr>,
            WebSocketSend ws (StatusChanged (ClientError
              (webSocketParamsDecodeError ext error url)))])"
    by (simp add: p update_WebSocketConnected_def webSocketConnected_onError_def)
  obtain error' where e':
    "WebSocketConnectedParams (paramsObject (urlSearchParams ext (drop 2 urlString))) = Inl error'"
    using WebSocketConnectedParams_throws by blast
  have g: "parseWebSocketConnectRequestUrl ext proj urlString = BadUrl ''/?'' urlString \<or>
    (\<exists>error. parseWebSocketConnectRequestUrl ext proj urlString
                = ParamsDecodeError error urlString)"
    unfolding parseWebSocketConnectRequestUrl_def using e' by simp
  show ?thesis using p u g unfolding url_def by blast
qed

text \<open>
  The connection of a client with \<open>elmWatchVersion=bogus\<close>, and of one with the
  version of the build: both get the result \<open>ParamsDecodeError\<close> for
  \<open>compiledTimestamp\<close>, and the client is sent the text for a parameter error, not the
  one for a wrong version.
\<close>

lemma parseWebSocketConnectRequestUrl_examples:
  "parseWebSocketConnectRequestUrl ext_example project_example
       ''/?elmWatchVersion=bogus&output=build/main.js&compiledTimestamp=0''
     = ParamsDecodeError (DecoderError (ExpectedNumber (JsString ''0'')) [''compiledTimestamp''])
         ''/?elmWatchVersion=bogus&output=build/main.js&compiledTimestamp=0''"
  "parseWebSocketConnectRequestUrl ext_example project_example
       ''/?elmWatchVersion=%VERSION%&output=build/main.js&compiledTimestamp=0''
     = ParamsDecodeError (DecoderError (ExpectedNumber (JsString ''0'')) [''compiledTimestamp''])
         ''/?elmWatchVersion=%VERSION%&output=build/main.js&compiledTimestamp=0''"
  "update ext_example project_example
       (WebSocketConnected 7 3 ''/?elmWatchVersion=bogus&output=build/main.js&compiledTimestamp=0'')
       model_compiling
     = (model_compiling,
        [WebSocketAdd \<lparr>webSocket = 3, outputPath = OutputPathError, priority = 7\<rparr>,
         WebSocketSend 3 (StatusChanged (ClientError ''bad params''))])"
  by (simp_all add: parseWebSocketConnectRequestUrl_def startsWith_def ext_example_def
      paramsObject_def Object_fromEntries_def WebSocketConnectedParams_def getProperty_def
      Decode_string_def Decode_number_def DecoderError_at_def
      update_WebSocketConnected_def webSocketConnected_onError_def)

lemma basename_of_elm_file:
  assumes "endsWith p ''.elm''"
  shows "\<exists>b. basename p = b @ ''.elm''"
proof -
  have "p = take (length p - length ''.elm'') p @ ''.elm''"
  proof -
    have "drop (length p - length ''.elm'') p = ''.elm''"
      using assms unfolding endsWith_def by blast
    then show ?thesis by (metis append_take_drop_id)
  qed
  then obtain q where "p = q @ ''.elm''" ..
  then show ?thesis by (simp add: basename_def)
qed

lemma elm_tooling_json_not_elm:
  assumes "basename p = ''elm-tooling.json''"
  shows "\<not> endsWith p ''.elm''"
proof
  assume "endsWith p ''.elm''"
  then obtain b where "basename p = b @ ''.elm''" using basename_of_elm_file by blast
  then have "last ''elm-tooling.json'' = last (b @ ''.elm'')" using assms by simp
  then show False by simp
qed

lemma markDirty_fields [simp]:
  "elmJsons (markDirty r proj) = elmJsons proj"
  "dirty (outputStates (markDirty r proj) r') = (r' = r \<or> dirty (outputStates proj r'))"
  by (simp_all add: markDirty_def)

lemma runCmd_MarkAsDirty_project:
  "dirty (outputStates (project (fst (runCmd_MarkAsDirty outs mutable))) r) =
     (r \<in> snd ` set outs \<or> dirty (outputStates (project mutable) r))"
proof -
  have "\<And>m sent. dirty (outputStates (project (fst (foldl (\<lambda>(m, sent) (outPath, outputState).
              (m\<lparr>project := markDirty outputState (project m)\<rparr>,
               sent @ webSocketSendToOutput outPath (StatusChanged Busy) (webSocketConnections m)))
           (m, sent) outs))) r) =
     (r \<in> snd ` set outs \<or> dirty (outputStates (project m) r))"
    by (induction outs) (auto simp: case_prod_beta)
  then show ?thesis by (simp add: runCmd_MarkAsDirty_def)
qed

text \<open>
  C2, as amended.  In hot mode, when a \<open>changed\<close> event for the configuration file
  \<open>elm-tooling.json\<close> of the project arrives while \<open>hotState\<close> is \<open>Compiling\<close>,
  \<open>update\<close> returns the command that marks every target dirty (running it sets the
  \<open>dirty\<close> flag of every target) and the command that starts the timer; when the
  timer fires the state becomes \<open>Restarting\<close> with the event among its reasons; when
  a part of the compilation is done and nothing is executing any more, \<open>update\<close>
  returns the \<open>Restart\<close> command (it returns it at once when the compilation has
  ended before the timer fires); and running that command closes the server and
  resolves the run with \<open>HotRunResult\<close> \<open>Restart\<close> whose \<open>webSocketState\<close> is
  \<open>undefined\<close>.
\<close>

theorem restart_on_elm_tooling_json_change:
  fixes ext :: Externals and proj proj2 proj3 :: Project and model :: Model
    and mutable mutable3 :: "'r Mutable" and date date2 date3 :: Date
    and prioritizedOutputs :: "(OutputPath \<times> int) list"
  assumes compiling: "hotState model = Compiling start events"
    and path: "absolutePathString = elmToolingJsonPath proj"
    and name: "basename absolutePathString = ''elm-tooling.json''"
    and same: "project mutable = proj"
    and finished: "numExecuting (getOutputActions ext proj3 True prioritizedOutputs) = 0"
  defines "step1 \<equiv> update ext proj (GotWatcherEvent date changed absolutePathString) model"
  defines "mutable1 \<equiv> fst (runCmd_MarkAsDirty (getFlatOutputs proj) mutable)"
  defines "step2 \<equiv> update ext proj2 (SleepBeforeNextActionDone date2) (fst step1)"
  defines "step3 \<equiv> update ext proj3 (CompilationPartDone date3 prioritizedOutputs) (fst step2)"
  shows
    "snd step1 = [MarkAsDirty (getFlatOutputs proj), SleepBeforeNextAction] \<and>
     (\<forall>r \<in> snd ` set (getFlatOutputs proj). dirty (outputStates (project mutable1) r)) \<and>
     (\<exists>reasons.
        WatcherEvent date changed absolutePathString \<in> set reasons \<and>
        hotState (fst step2) = Restarting reasons \<and>
        nextAction (fst step2) = NoAction \<and>
        snd step3 = [Cmd.Restart reasons] \<and>
        snd (update ext proj2 (SleepBeforeNextActionDone date2) ((fst step1)\<lparr>hotState := Idle\<rparr>))
          = [ClearScreen, Cmd.Restart reasons] \<and>
        snd (runCmd_Restart reasons mutable3) = (True, HotRunResult.Restart reasons None))"
proof -
  define event where "event = WatcherEvent date changed absolutePathString"
  define message where
    "message = restartBecauseJsonFileChangedMessage ext (basename absolutePathString) changed"
  define ewm where
    "ewm = (case nextAction model of
              NextAction.Restart eventsWithMessages \<Rightarrow> eventsWithMessages @ [(event, message)]
            | _ \<Rightarrow> [(event, message)])"
  define reasons where "reasons = map fst ewm"
  have notelm: "\<not> endsWith absolutePathString ''.elm''"
    using name by (rule elm_tooling_json_not_elm)
  have w: "onWatcherEvent ext date proj changed absolutePathString (nextAction model) =
             Some (NextAction.Restart ewm, [MarkAsDirty (getFlatOutputs proj)])"
    using notelm name path
    by (cases "nextAction model")
      (simp_all add: onWatcherEvent_def makeRestartNextAction_def makeWatcherEvent_def
        ewm_def event_def message_def)
  have s1: "step1 = (model\<lparr>nextAction := NextAction.Restart ewm\<rparr>,
                     [MarkAsDirty (getFlatOutputs proj), SleepBeforeNextAction])"
    unfolding step1_def by (simp add: w)
  have inreasons: "event \<in> set reasons"
    by (cases "nextAction model") (simp_all add: reasons_def ewm_def)
  have s2: "step2 = (\<lparr>nextAction = NoAction, hotState = Restarting reasons\<rparr>,
                     [ClearScreen, LogInfoMessageWithTimeline (restartingMessage ewm) reasons])"
    unfolding step2_def s1 using compiling
    by (simp add: runNextAction_def Let_def reasons_def)
  have s3: "step3 = (fst step2, [Cmd.Restart reasons])"
    unfolding step3_def s2 using finished
    by (simp add: update_CompilationPartDone_def Let_def)
  have s2idle: "snd (update ext proj2 (SleepBeforeNextActionDone date2)
                       ((fst step1)\<lparr>hotState := Idle\<rparr>)) = [ClearScreen, Cmd.Restart reasons]"
    unfolding s1 by (simp add: runNextAction_def Let_def reasons_def)
  have changedFile: "elmToolingJsonChanged reasons"
    unfolding elmToolingJsonChanged_def list_ex_iff
    using inreasons name by (intro bexI [of _ event]) (simp_all add: event_def)
  have r: "snd (runCmd_Restart reasons mutable3) = (True, HotRunResult.Restart reasons None)"
    using changedFile by (simp add: runCmd_Restart_def Let_def)
  have d: "\<forall>r \<in> snd ` set (getFlatOutputs proj). dirty (outputStates (project mutable1) r)"
    unfolding mutable1_def by (simp add: runCmd_MarkAsDirty_project)
  have e: "\<exists>reasons.
        WatcherEvent date changed absolutePathString \<in> set reasons \<and>
        hotState (fst step2) = Restarting reasons \<and>
        nextAction (fst step2) = NoAction \<and>
        snd step3 = [Cmd.Restart reasons] \<and>
        snd (update ext proj2 (SleepBeforeNextActionDone date2) ((fst step1)\<lparr>hotState := Idle\<rparr>))
          = [ClearScreen, Cmd.Restart reasons] \<and>
        snd (runCmd_Restart reasons mutable3) = (True, HotRunResult.Restart reasons None)"
    using inreasons r s2idle by (intro exI [of _ reasons]) (simp add: s2 s3 event_def)
  show ?thesis
    using d e by (simp add: s1)
qed


theorem restart_on_elm_tooling_json_change_witness:
  "hotState model_compiling = Compiling 0 [] \<and>
   basename ''/app/elm-tooling.json'' = ''elm-tooling.json'' \<and>
   snd (update ext_example project_example
          (GotWatcherEvent 5 changed ''/app/elm-tooling.json'') model_compiling)
     = [MarkAsDirty (getFlatOutputs project_example), SleepBeforeNextAction] \<and>
   dirty (outputStates
            (project (fst (runCmd_MarkAsDirty (getFlatOutputs project_example) mutable_example))) 2) \<and>
   snd (runCmd_Restart [WatcherEvent 5 changed ''/app/elm-tooling.json''] mutable_example)
     = (True, HotRunResult.Restart [WatcherEvent 5 changed ''/app/elm-tooling.json''] None)"
proof -
  have c: "hotState model_compiling = Compiling 0 []" by (simp add: model_compiling_def)
  have p: "''/app/elm-tooling.json'' = elmToolingJsonPath project_example"
    by (simp add: project_example_def)
  have n: "basename ''/app/elm-tooling.json'' = ''elm-tooling.json''"
    by (simp add: basename_def)
  have m: "project mutable_example = project_example" by (simp add: mutable_example_def)
  have f: "numExecuting (getOutputActions ext_example project_example True []) = 0"
    by (simp add: ext_example_def)
  have two: "2 \<in> snd ` set (getFlatOutputs project_example)"
    by (simp add: getFlatOutputs_def project_example_def)
  note t = restart_on_elm_tooling_json_change [OF c p n m f, of 5 project_example 15 20 mutable_example]
  have 1: "snd (update ext_example project_example
          (GotWatcherEvent 5 changed ''/app/elm-tooling.json'') model_compiling)
     = [MarkAsDirty (getFlatOutputs project_example), SleepBeforeNextAction]"
    using t by blast
  have 2: "dirty (outputStates
            (project (fst (runCmd_MarkAsDirty (getFlatOutputs project_example) mutable_example))) 2)"
    using t two by blast
  have 3: "snd (runCmd_Restart [WatcherEvent 5 changed ''/app/elm-tooling.json''] mutable_example)
     = (True, HotRunResult.Restart [WatcherEvent 5 changed ''/app/elm-tooling.json''] None)"
    by (simp add: runCmd_Restart_def elmToolingJsonChanged_def n Let_def)
  show ?thesis using c n 1 2 3 by blast
qed

section \<open>Proofs: the persisted state file\<close>

lemma elmWatchJson_entries:
  "concat (map (\<lambda>(outPath, outputState).
                  if modeOf outputState = standard then []
                  else [(orig outPath, modeOf outputState)]) flat) =
   map (\<lambda>(outPath, outputState). (orig outPath, modeOf outputState))
     (filter (\<lambda>(outPath, outputState). modeOf outputState \<noteq> standard) flat)"
  by (induction flat) auto

text \<open>
  C6.  Every write of the persisted state file is given the value
  \<open>{port, outputs}\<close> in which \<open>port\<close> is the port of the WebSocket server and the
  keys of \<open>outputs\<close> are the original output path strings of exactly the targets whose
  compilation mode is not \<open>standard\<close>; every value is the non-standard mode of a
  target with that string, so \<open>standard\<close> never occurs; and when the strings tell the
  targets apart, each such target is mapped to its own mode and a target in
  \<open>standard\<close> mode has no entry.
\<close>

theorem writeElmWatchJson_outputs:
  fixes ext :: Externals and mutable :: "'r Mutable" and fs :: FsOutcome
  defines "flat \<equiv> getFlatOutputs (project mutable)"
    and "modeOf \<equiv> \<lambda>r. compilationMode (outputStates (project mutable) r)"
    and "orig \<equiv> outputPathToOriginalString ext"
    and "json \<equiv> elmWatchJson ext mutable"
  shows
    "(snd (writeElmWatchJson ext fs mutable) = None \<or>
      snd (writeElmWatchJson ext fs mutable) = Some json) \<and>
     snd (writeElmWatchJson ext Written mutable) = Some json \<and>
     port json = thePort (webSocketServer mutable) \<and>
     dom (outputs json) =
       {orig outPath | outPath r. (outPath, r) \<in> set flat \<and> modeOf r \<noteq> standard} \<and>
     (\<forall>key mode. outputs json key = Some mode \<longrightarrow>
        mode \<noteq> standard \<and>
        (\<exists>outPath r. (outPath, r) \<in> set flat \<and> orig outPath = key \<and> modeOf r = mode)) \<and>
     (distinct (map (\<lambda>(outPath, r). orig outPath) flat) \<longrightarrow>
        (\<forall>(outPath, r) \<in> set flat.
           outputs json (orig outPath) =
             (if modeOf r = standard then None else Some (modeOf r))))"
proof -
  define kept where "kept = filter (\<lambda>(outPath, r). modeOf r \<noteq> standard) flat"
  define entries where "entries = map (\<lambda>(outPath, r). (orig outPath, modeOf r)) kept"
  have out: "outputs json = map_of (rev entries)"
    unfolding json_def elmWatchJson_def entries_def kept_def flat_def modeOf_def orig_def
    by (simp add: Object_fromEntries_map_of elmWatchJson_entries)
  have w: "(snd (writeElmWatchJson ext fs mutable) = None \<or>
            snd (writeElmWatchJson ext fs mutable) = Some json) \<and>
           snd (writeElmWatchJson ext Written mutable) = Some json"
    by (cases fs) (simp_all add: writeElmWatchJson_def json_def Let_def)
  have p: "port json = thePort (webSocketServer mutable)"
    by (simp add: json_def elmWatchJson_def)
  have d: "dom (outputs json) =
       {orig outPath | outPath r. (outPath, r) \<in> set flat \<and> modeOf r \<noteq> standard}"
    unfolding out by (force simp: dom_map_of_conv_image_fst entries_def kept_def)
  have v: "\<forall>key mode. outputs json key = Some mode \<longrightarrow>
        mode \<noteq> standard \<and>
        (\<exists>outPath r. (outPath, r) \<in> set flat \<and> orig outPath = key \<and> modeOf r = mode)"
  proof (intro allI impI)
    fix key mode assume "outputs json key = Some mode"
    then have "(key, mode) \<in> set entries"
      unfolding out by (auto dest: map_of_SomeD)
    then show "mode \<noteq> standard \<and>
        (\<exists>outPath r. (outPath, r) \<in> set flat \<and> orig outPath = key \<and> modeOf r = mode)"
      by (auto simp: entries_def kept_def)
  qed
  have u: "distinct (map (\<lambda>(outPath, r). orig outPath) flat) \<longrightarrow>
        (\<forall>(outPath, r) \<in> set flat.
           outputs json (orig outPath) =
             (if modeOf r = standard then None else Some (modeOf r)))"
  proof (intro impI ballI)
    fix x assume dist: "distinct (map (\<lambda>(outPath, r). orig outPath) flat)" and x: "x \<in> set flat"
    obtain outPath r where xr: "x = (outPath, r)" by (cases x)
    have fk: "map fst entries = map (\<lambda>(outPath, r). orig outPath) kept"
      by (simp add: entries_def case_prod_beta)
    have dk: "distinct (map fst (rev entries))"
      unfolding rev_map [symmetric] distinct_rev fk kept_def
      using dist by (rule distinct_map_filter)
    have inj: "\<And>q r'. (q, r') \<in> set flat \<Longrightarrow> orig q = orig outPath \<Longrightarrow> (q, r') = (outPath, r)"
    proof -
      fix q r' assume a: "(q, r') \<in> set flat" "orig q = orig outPath"
      have "inj_on (\<lambda>(outPath, r). orig outPath) (set flat)"
        using dist by (simp add: distinct_map)
      then show "(q, r') = (outPath, r)"
        using a x xr by (auto dest!: inj_onD [where x = "(q, r')" and y = "(outPath, r)"])
    qed
    have "outputs json (orig outPath) = (if modeOf r = standard then None else Some (modeOf r))"
    proof (cases "modeOf r = standard")
      case True
      have "orig outPath \<notin> dom (outputs json)"
        unfolding d using inj True by auto
      then show ?thesis using True by (simp add: domIff)
    next
      case False
      have "(orig outPath, modeOf r) \<in> set (rev entries)"
        using x xr False by (force simp: entries_def kept_def)
      then have "map_of (rev entries) (orig outPath) = Some (modeOf r)"
        using dk by (simp add: map_of_is_SomeI)
      then show ?thesis using False by (simp add: out)
    qed
    then show "case x of (outPath, r) \<Rightarrow>
           outputs json (orig outPath) =
             (if modeOf r = standard then None else Some (modeOf r))"
      by (simp add: xr)
  qed
  show ?thesis
    by (rule conjI [OF conjunct1 [OF w] conjI [OF conjunct2 [OF w] conjI [OF p conjI [OF d conjI [OF v u]]]]])
qed

theorem writeElmWatchJson_outputs_witness:
  "snd (writeElmWatchJson ext_example Written mutable_example)
     = Some (elmWatchJson ext_example mutable_example) \<and>
   port (elmWatchJson ext_example mutable_example) = 8000 \<and>
   dom (outputs (elmWatchJson ext_example mutable_example)) = {''build/admin.js''} \<and>
   outputs (elmWatchJson ext_example mutable_example) ''build/admin.js'' = Some debug \<and>
   outputs (elmWatchJson ext_example mutable_example) ''build/main.js'' = None"
  using writeElmWatchJson_outputs [of ext_example Written mutable_example]
  by (simp add: writeElmWatchJson_def elmWatchJson_def Object_fromEntries_def getFlatOutputs_def
      ext_example_def mutable_example_def project_example_def outputState_example_def
      newWebSocketServer_def Let_def)

section \<open>Proofs: the compile loop and its report\<close>

text \<open>
  What the three parts of the function of a target do with \<open>dirty\<close> and \<open>status\<close>.
  A target that is picked up while dirty gets the status \<open>ElmMake\<close> and
  \<open>dirty = false\<close> before the compiler runs.  When \<open>elm make\<close> completes and the target
  is dirty again or a full restart was requested, nothing changes.  When the postprocess
  completes, the status is its result in every case.
\<close>

lemma compile_start_clears_dirty:
  assumes "dirty (outputStates state r)"
  shows "\<exists>state' ops.
           compile_start isInteractive len outPath r state = (state', ops, AwaitElmMake) \<and>
           status (outputStates state' r) = OutputStatus.ElmMake \<and>
           \<not> dirty (outputStates state' r)"
  using assms by (simp add: compile_start_def setStatus_def setDirty_def)

lemma compile_afterElmMake_discards:
  assumes "fullRestartRequested state \<or> dirty (outputStates state r)"
  shows "compile_afterElmMake isInteractive len outPath r index elmMakeResult state
           = (state, [], Returned)"
  using assms by (simp add: compile_afterElmMake_def)

lemma compile_afterPostprocess_status:
  "status (outputStates (fst (compile_afterPostprocess isInteractive len outPath r index
      postprocessResult state)) r) = postprocessResult"
  by (simp add: compile_afterPostprocess_def Let_def setStatus_def)

lemma compile_event_PostprocessDone_status:
  assumes "k < length tasks" and "k < length targets" and "tasks ! k = AwaitPostprocess"
    and "targets ! k = (elmJsonPath, outPath, r)"
  shows "\<exists>state' ops' tasks'.
           compile_event isInteractive targets (PostprocessDone k postprocessResult)
             (state, ops, tasks) = Some (state', ops', tasks') \<and>
           status (outputStates state' r) = postprocessResult \<and>
           dirty (outputStates state' r) = dirty (outputStates state r) \<and>
           fullRestartRequested state' = fullRestartRequested state"
  using assms
  by (simp add: compile_event_def compile_afterPostprocess_def Let_def setStatus_def)

text \<open>
  C3.  The claim says that when the target is dirty again, or a full restart was
  requested, at the completion of the postprocess, the result is discarded and the status
  of the target is not updated from it.  In the code the assignment
  \<open>outputState.status = await postprocess(...)\<close> comes before the test, so the status is
  the result of the postprocess.  Three passes from a state whose first target is dirty
  and has a postprocess command, and where \<open>elm make\<close> succeeds:
  \<^item> the target is marked dirty while the postprocess runs, and the postprocess fails:
    at the end of the pass the target is dirty and its status is the failure of the
    postprocess;
  \<^item> the target is marked dirty while \<open>elm make\<close> runs: at the end of the pass the
    target is dirty and its status is still \<open>ElmMake\<close>, the result is discarded as the
    claim says;
  \<^item> a full restart is requested while the postprocess runs: \<open>compile\<close> returns 0
    and the status of the target is the failure of the postprocess.
\<close>

theorem compile_keeps_result_of_interrupted_postprocess:
  "map_option (\<lambda>(state', ops). (status (outputStates state' 0), dirty (outputStates state' 0), ops))
     (compile_round False (toCompile state_dirty) schedule_dirty_during_postprocess state_dirty)
     = Some (PostprocessNonZeroExit (ExitCode 1) [] ''boom'' ''node postprocess.js'', True,
             [ErrorStatusLine (OutputPath ''/app/build/main.js'' ''build/main.js'')
                OutputStatus.ElmMake,
              ErrorStatusLine (OutputPath ''/app/build/main.js'' ''build/main.js'')
                OutputStatus.Postprocess]) \<and>
   map_option (\<lambda>(state', ops). (status (outputStates state' 0), dirty (outputStates state' 0), ops))
     (compile_round False (toCompile state_dirty) schedule_dirty_during_elm_make state_dirty)
     = Some (OutputStatus.ElmMake, True,
             [ErrorStatusLine (OutputPath ''/app/build/main.js'' ''build/main.js'')
                OutputStatus.ElmMake]) \<and>
   map_option (\<lambda>(state', ops, code).
                 (status (outputStates state' 0), dirty (outputStates state' 0),
                  fullRestartRequested state', code))
     (compile render_example (\<lambda>s. s) False False 80 schedule_restart_during_postprocess
        state_dirty)
     = Some (PostprocessNonZeroExit (ExitCode 1) [] ''boom'' ''node postprocess.js'', False,
             True, 0)"
  by (simp add: compile_def schedule_dirty_during_postprocess_def
      schedule_dirty_during_elm_make_def schedule_restart_during_postprocess_def
      state_dirty_def state_example_def interfere_def
      compileOutputState_example_def Let_def compile_afterInstallation_def
      someOutputIsDirty_def toCompile_def compile_round_def compile_startAll_def compile_event_def
      compile_start_def compile_afterElmMake_def compile_afterPostprocess_def
      setStatus_def setDirty_def updateStatusLine_def compile_end_def)

lemma uniqueInOrder_set:
  "set (uniqueInOrder seen xs) = set xs - set seen"
  by (induction seen xs rule: uniqueInOrder.induct) auto

lemma uniqueInOrder_distinct:
  "distinct (uniqueInOrder seen xs)"
  by (induction seen xs rule: uniqueInOrder.induct) (auto simp: uniqueInOrder_set)

lemma Array_from_Set_props:
  "distinct (Array_from_Set xs)" "set (Array_from_Set xs) = set xs"
  "length (Array_from_Set xs) = card (set xs)"
proof -
  show d: "distinct (Array_from_Set xs)"
    by (simp add: Array_from_Set_def uniqueInOrder_distinct)
  show s: "set (Array_from_Set xs) = set xs"
    by (simp add: Array_from_Set_def uniqueInOrder_set)
  show "length (Array_from_Set xs) = card (set xs)"
    using distinct_card [OF d] s by simp
qed

lemma compile_install_code:
  "snd (compile_install fancy isInteractive len index steps) =
     (if list_ex (\<lambda>(elmJsonPath, result, didWrite). installFails result) steps
      then Some 1 else None)"
proof (induction steps arbitrary: index)
  case Nil
  show ?case by simp
next
  case (Cons step steps)
  obtain elmJsonPath result didWrite where step: "step = (elmJsonPath, result, didWrite)"
    by (cases step)
  show ?case
    unfolding step using Cons.IH [of "Suc index"]
    by (cases result) (simp_all add: Let_def installFails_def case_prod_beta)
qed

text \<open>
  When an installation fails, the last three things written are the line that says so,
  an empty line and the template of the error.
\<close>

lemma compile_install_error_output:
  assumes "list_ex (\<lambda>(elmJsonPath, result, didWrite). installFails result) steps"
  shows "\<exists>before message template.
           fst (compile_install fancy isInteractive len index steps) =
             before @ [ErrorLine message, ErrorLine [], ErrorTemplateLine template]"
  using assms
proof (induction steps arbitrary: index)
  case Nil
  then show ?case by simp
next
  case (Cons step steps)
  obtain elmJsonPath result didWrite where step: "step = (elmJsonPath, result, didWrite)"
    by (cases step)
  have later: "list_ex (\<lambda>(elmJsonPath, result, didWrite). installFails result) steps \<Longrightarrow>
      \<exists>before message template.
         fst (compile_install fancy isInteractive len (Suc index) steps) =
           before @ [ErrorLine message, ErrorLine [], ErrorTemplateLine template]"
    by (rule Cons.IH)
  show ?case
  proof (cases "installFails result")
    case True
    then show ?thesis
      unfolding step
      by (cases result) (simp_all add: Let_def installFails_def)
  next
    case False
    then have "list_ex (\<lambda>(elmJsonPath, result, didWrite). installFails result) steps"
      using Cons.prems unfolding step by simp
    then obtain before message template where rest:
      "fst (compile_install fancy isInteractive len (Suc index) steps) =
           before @ [ErrorLine message, ErrorLine [], ErrorTemplateLine template]"
      using later by blast
    obtain ops' code where c:
      "compile_install fancy isInteractive len (Suc index) steps = (ops', code)"
      by (cases "compile_install fancy isInteractive len (Suc index) steps")
    have ops': "ops' = before @ [ErrorLine message, ErrorLine [], ErrorTemplateLine template]"
      using rest c by simp
    from False show ?thesis
      unfolding step
      by (cases result)
        (simp_all add: Let_def installFails_def c ops' append_assoc [symmetric]
          del: append_assoc)
  qed
qed

lemma install_steps_fail:
  "list_ex (\<lambda>(elmJsonPath, result, didWrite). installFails result)
     (map (\<lambda>((elmJsonPath, outs), (result, didWrite)). (elmJsonPath, result, didWrite))
        (zip elmJsonsArray results)) =
   list_ex (\<lambda>(result, didWrite). installFails result) (take (length elmJsonsArray) results)"
proof (induction elmJsonsArray arbitrary: results)
  case Nil
  show ?case by simp
next
  case (Cons e elmJsonsArray)
  show ?case
    using Cons.IH [of "tl results"]
    by (cases results) (simp_all add: case_prod_beta)
qed


lemma compile_end_code:
  fixes bold :: "string \<Rightarrow> string"
  shows "snd (compile_end render bold fancy stderrColumns state) =
     (if \<not> fullRestartRequested state \<and> extractErrors state \<noteq> [] then 1 else 0)"
  by (simp add: compile_end_def Let_def)

lemma compile_end_report:
  fixes bold :: "string \<Rightarrow> string"
  assumes "\<not> fullRestartRequested state" and "extractErrors state \<noteq> []"
  shows "fst (compile_end render bold fancy stderrColumns state) =
           [ErrorLine [],
            ErrorLine (join (errorStringsOf render stderrColumns state) (lineFeed @ lineFeed)),
            ErrorLine [],
            ErrorLine
              ((if fancy then emojiError @ '' '' else []) @
               bold (toString (int (length (errorStringsOf render stderrColumns state)))) @
               '' error'' @
               (if length (errorStringsOf render stderrColumns state) = 1 then [] else ''s'') @
               '' found'')]"
  using assms by (simp add: compile_end_def Let_def)

lemma compile_afterInstallation_Some:
  fixes bold :: "string \<Rightarrow> string"
  assumes "compile_afterInstallation render bold fancy isInteractive stderrColumns passes state
             = Some (state', ops, code)"
  shows "code = snd (compile_end render bold fancy stderrColumns state') \<and>
         (\<exists>before. ops = before @ fst (compile_end render bold fancy stderrColumns state'))"
  using assms
  by (auto simp: compile_afterInstallation_def Let_def split: option.splits prod.splits)

text \<open>The three ways in which \<open>compile\<close> returns.\<close>

lemma compile_Some:
  fixes bold :: "string \<Rightarrow> string"
  assumes "compile render bold fancy isInteractive stderrColumns schedule state
             = Some (state', ops, code)"
  shows
    "(installationFails schedule state \<and> state' = state \<and> code = 1 \<and>
      (\<exists>before message template.
         ops = before @ [ErrorLine message, ErrorLine [], ErrorTemplateLine template])) \<or>
     (\<not> installationFails schedule state \<and> fullRestartRequested state' \<and> code = 0) \<or>
     (\<not> installationFails schedule state \<and>
      code = snd (compile_end render bold fancy stderrColumns state') \<and>
      (\<exists>before. ops = before @ fst (compile_end render bold fancy stderrColumns state')))"
proof (cases "hasRunInstall state")
  case True
  then have "compile_afterInstallation render bold fancy isInteractive stderrColumns
               (rounds schedule) state = Some (state', ops, code)"
    using assms by (simp add: compile_def)
  then show ?thesis
    using compile_afterInstallation_Some True by (simp add: installationFails_def)
next
  case False
  define steps where
    "steps = map (\<lambda>((elmJsonPath, outs), (result, didWrite)). (elmJsonPath, result, didWrite))
               (zip (elmJsons state) (installResults schedule))"
  obtain iops icode where i:
    "compile_install fancy isInteractive (length (elmJsons state)) 0 steps = (iops, icode)"
    by (cases "compile_install fancy isInteractive (length (elmJsons state)) 0 steps")
  have fails: "installationFails schedule state =
                 list_ex (\<lambda>(elmJsonPath, result, didWrite). installFails result) steps"
    unfolding steps_def install_steps_fail installationFails_def using False by simp
  have icode: "icode = (if installationFails schedule state then Some 1 else None)"
    using compile_install_code [of fancy isInteractive "length (elmJsons state)" 0 steps]
    by (simp add: i fails)
  show ?thesis
  proof (cases "installationFails schedule state")
    case True
    have "\<exists>before message template.
            iops = before @ [ErrorLine message, ErrorLine [], ErrorTemplateLine template]"
      using compile_install_error_output
        [of steps fancy isInteractive "length (elmJsons state)" 0] True
      by (simp add: fails i)
    moreover have "state' = state \<and> ops = iops \<and> code = 1"
      using assms unfolding compile_def Let_def steps_def [symmetric] i icode
      using False True by simp
    ultimately show ?thesis using True by blast
  next
    case nofail: False
    define state1 where
      "state1 = foldl (\<lambda>st i. interfere i st) state (duringInstall schedule)"
    show ?thesis
    proof (cases "fullRestartRequested state1")
      case True
      have "state' = state1\<lparr>hasRunInstall := True\<rparr> \<and> code = 0"
        using assms
        unfolding compile_def Let_def steps_def [symmetric] i icode state1_def [symmetric]
        using False nofail True
        by (simp add: compile_afterInstall_def split: if_splits)
      then show ?thesis using nofail True by simp
    next
      case norestart: False
      have "\<exists>ops'. compile_afterInstallation render bold fancy isInteractive stderrColumns
               (rounds schedule) (state1\<lparr>hasRunInstall := True\<rparr>) = Some (state', ops', code) \<and>
               ops = iops @ ops'"
        using assms
        unfolding compile_def Let_def steps_def [symmetric] i icode state1_def [symmetric]
        using False nofail norestart
        by (auto simp: compile_afterInstall_def split: if_splits option.splits)
      then obtain ops' where a:
        "compile_afterInstallation render bold fancy isInteractive stderrColumns
               (rounds schedule) (state1\<lparr>hasRunInstall := True\<rparr>) = Some (state', ops', code)"
        and o: "ops = iops @ ops'" by blast
      obtain before where
        "code = snd (compile_end render bold fancy stderrColumns state')"
        "ops' = before @ fst (compile_end render bold fancy stderrColumns state')"
        using compile_afterInstallation_Some [OF a] by blast
      then have "code = snd (compile_end render bold fancy stderrColumns state') \<and>
                 ops = (iops @ before) @ fst (compile_end render bold fancy stderrColumns state')"
        using o by simp
      then show ?thesis using nofail by blast
    qed
  qed
qed

lemma compile_returns_when_installation_fails:
  fixes bold :: "string \<Rightarrow> string"
  assumes "installationFails schedule state"
  shows "\<exists>ops. compile render bold fancy isInteractive stderrColumns schedule state
                 = Some (state, ops, 1)"
proof -
  define steps where
    "steps = map (\<lambda>((elmJsonPath, outs), (result, didWrite)). (elmJsonPath, result, didWrite))
               (zip (elmJsons state) (installResults schedule))"
  obtain iops icode where i:
    "compile_install fancy isInteractive (length (elmJsons state)) 0 steps = (iops, icode)"
    by (cases "compile_install fancy isInteractive (length (elmJsons state)) 0 steps")
  have n: "\<not> hasRunInstall state" using assms by (simp add: installationFails_def)
  have "list_ex (\<lambda>(elmJsonPath, result, didWrite). installFails result) steps"
    unfolding steps_def install_steps_fail using assms by (simp add: installationFails_def)
  then have "icode = Some 1"
    using compile_install_code [of fancy isInteractive "length (elmJsons state)" 0 steps]
    by (simp add: i)
  then show ?thesis
    unfolding compile_def Let_def steps_def [symmetric] i using n by simp
qed


lemma compile_returns_when_nothing_is_dirty:
  fixes bold :: "string \<Rightarrow> string"
  assumes "hasRunInstall state" and "\<not> someOutputIsDirty state"
  shows "\<exists>ops code. compile render bold fancy isInteractive stderrColumns schedule state
                 = Some (state, ops, code)"
  using assms
  by (cases "rounds schedule")
    (simp_all add: compile_def compile_afterInstallation_def Let_def split: prod.splits)

text \<open>
  C7, as amended.  For every state and every schedule:
  \<^item> when an installation of the dependencies fails, \<open>compile\<close> returns 1 with the
    state as it was, and the last things it writes are the line for the failed
    installation, an empty line and the template of its error;
  \<^item> when the installation has run before and no target is dirty, \<open>compile\<close>
    returns;
  \<^item> when \<open>compile\<close> returns, the exit code is 1 exactly when an installation
    failed, or no full restart was requested and at least one error is extracted from
    the state at the end, and otherwise it is 0; the templates of the extracted errors
    rendered at the width of the terminal are kept once each: the list has no
    duplicates, it has the same members as the rendered texts and its length is the
    number of distinct texts; and when no installation failed, no full restart was
    requested and an error is extracted, the last things written are an empty line, the
    distinct texts joined by empty lines, an empty line and the line \<open>N errors found\<close>
    where \<open>N\<close> is the number of distinct texts.
\<close>

theorem compile_exit_code_and_deduplication:
  fixes render :: "ErrorTemplate \<Rightarrow> nat \<Rightarrow> string" and bold :: "string \<Rightarrow> string"
    and fancy isInteractive :: bool and stderrColumns :: nat
    and schedule :: Schedule and state :: State
  defines "result \<equiv> compile render bold fancy isInteractive stderrColumns schedule state"
  shows
    "(installationFails schedule state \<longrightarrow>
        (\<exists>before message template.
           result = Some (state,
                          before @ [ErrorLine message, ErrorLine [], ErrorTemplateLine template],
                          1))) \<and>
     (hasRunInstall state \<and> \<not> someOutputIsDirty state \<longrightarrow> result \<noteq> None) \<and>
     (\<forall>state' ops code. result = Some (state', ops, code) \<longrightarrow>
        (code = 1 \<longleftrightarrow>
           installationFails schedule state \<or>
           (\<not> fullRestartRequested state' \<and> extractErrors state' \<noteq> [])) \<and>
        (code \<noteq> 1 \<longrightarrow> code = 0) \<and>
        distinct (errorStringsOf render stderrColumns state') \<and>
        set (errorStringsOf render stderrColumns state') =
          set (map (\<lambda>template. render template stderrColumns) (extractErrors state')) \<and>
        length (errorStringsOf render stderrColumns state') =
          card (set (map (\<lambda>template. render template stderrColumns) (extractErrors state'))) \<and>
        (\<not> installationFails schedule state \<and>
         \<not> fullRestartRequested state' \<and> extractErrors state' \<noteq> [] \<longrightarrow>
           (\<exists>before.
              ops = before @
                [ErrorLine [],
                 ErrorLine (join (errorStringsOf render stderrColumns state') (lineFeed @ lineFeed)),
                 ErrorLine [],
                 ErrorLine
                   ((if fancy then emojiError @ '' '' else []) @
                    bold (toString (int (card (set (map (\<lambda>template. render template stderrColumns)
                                                      (extractErrors state')))))) @
                    '' error'' @
                    (if card (set (map (\<lambda>template. render template stderrColumns)
                                     (extractErrors state'))) = 1 then [] else ''s'') @
                    '' found'')])))"
proof -
  have inst: "installationFails schedule state \<longrightarrow>
        (\<exists>before message template.
           result = Some (state,
                          before @ [ErrorLine message, ErrorLine [], ErrorTemplateLine template],
                          1))"
  proof
    assume f: "installationFails schedule state"
    then obtain ops where r: "result = Some (state, ops, 1)"
      unfolding result_def using compile_returns_when_installation_fails by blast
    have "\<exists>before message template.
            ops = before @ [ErrorLine message, ErrorLine [], ErrorTemplateLine template]"
      using compile_Some [OF r [unfolded result_def]] f by blast
    then show "\<exists>before message template.
           result = Some (state,
                          before @ [ErrorLine message, ErrorLine [], ErrorTemplateLine template],
                          1)"
      using r by blast
  qed
  have clean: "hasRunInstall state \<and> \<not> someOutputIsDirty state \<longrightarrow> result \<noteq> None"
  proof
    assume "hasRunInstall state \<and> \<not> someOutputIsDirty state"
    then have "\<exists>ops code. result = Some (state, ops, code)"
      unfolding result_def using compile_returns_when_nothing_is_dirty by blast
    then show "result \<noteq> None" by auto
  qed
  have ends: "\<forall>state' ops code. result = Some (state', ops, code) \<longrightarrow>
        (code = 1 \<longleftrightarrow>
           installationFails schedule state \<or>
           (\<not> fullRestartRequested state' \<and> extractErrors state' \<noteq> [])) \<and>
        (code \<noteq> 1 \<longrightarrow> code = 0) \<and>
        distinct (errorStringsOf render stderrColumns state') \<and>
        set (errorStringsOf render stderrColumns state') =
          set (map (\<lambda>template. render template stderrColumns) (extractErrors state')) \<and>
        length (errorStringsOf render stderrColumns state') =
          card (set (map (\<lambda>template. render template stderrColumns) (extractErrors state'))) \<and>
        (\<not> installationFails schedule state \<and>
         \<not> fullRestartRequested state' \<and> extractErrors state' \<noteq> [] \<longrightarrow>
           (\<exists>before.
              ops = before @
                [ErrorLine [],
                 ErrorLine (join (errorStringsOf render stderrColumns state') (lineFeed @ lineFeed)),
                 ErrorLine [],
                 ErrorLine
                   ((if fancy then emojiError @ '' '' else []) @
                    bold (toString (int (card (set (map (\<lambda>template. render template stderrColumns)
                                                      (extractErrors state')))))) @
                    '' error'' @
                    (if card (set (map (\<lambda>template. render template stderrColumns)
                                     (extractErrors state'))) = 1 then [] else ''s'') @
                    '' found'')]))"
  proof (intro allI impI)
    fix state' ops code
    assume r: "result = Some (state', ops, code)"
    note cases = compile_Some [OF r [unfolded result_def]]
    have a: "distinct (errorStringsOf render stderrColumns state')"
      "set (errorStringsOf render stderrColumns state') =
          set (map (\<lambda>template. render template stderrColumns) (extractErrors state'))"
      "length (errorStringsOf render stderrColumns state') =
          card (set (map (\<lambda>template. render template stderrColumns) (extractErrors state')))"
      unfolding errorStringsOf_def by (rule Array_from_Set_props)+
    have code: "code = 1 \<longleftrightarrow>
           installationFails schedule state \<or>
           (\<not> fullRestartRequested state' \<and> extractErrors state' \<noteq> [])"
      using cases by (auto simp: compile_end_code split: if_splits)
    have zero: "code \<noteq> 1 \<longrightarrow> code = 0"
      using cases by (auto simp: compile_end_code split: if_splits)
    have report: "\<not> installationFails schedule state \<and>
         \<not> fullRestartRequested state' \<and> extractErrors state' \<noteq> [] \<longrightarrow>
           (\<exists>before.
              ops = before @
                [ErrorLine [],
                 ErrorLine (join (errorStringsOf render stderrColumns state') (lineFeed @ lineFeed)),
                 ErrorLine [],
                 ErrorLine
                   ((if fancy then emojiError @ '' '' else []) @
                    bold (toString (int (card (set (map (\<lambda>template. render template stderrColumns)
                                                      (extractErrors state')))))) @
                    '' error'' @
                    (if card (set (map (\<lambda>template. render template stderrColumns)
                                     (extractErrors state'))) = 1 then [] else ''s'') @
                    '' found'')])"
    proof
      assume h: "\<not> installationFails schedule state \<and>
         \<not> fullRestartRequested state' \<and> extractErrors state' \<noteq> []"
      have nf: "\<not> installationFails schedule state" and nr: "\<not> fullRestartRequested state'"
        and ne: "extractErrors state' \<noteq> []"
        using h by simp_all
      obtain before where
        o: "ops = before @ fst (compile_end render bold fancy stderrColumns state')"
        using cases nf nr by blast
      note e = compile_end_report [OF nr ne, of render bold fancy stderrColumns, unfolded a(3)]
      show "\<exists>before.
              ops = before @
                [ErrorLine [],
                 ErrorLine (join (errorStringsOf render stderrColumns state') (lineFeed @ lineFeed)),
                 ErrorLine [],
                 ErrorLine
                   ((if fancy then emojiError @ '' '' else []) @
                    bold (toString (int (card (set (map (\<lambda>template. render template stderrColumns)
                                                      (extractErrors state')))))) @
                    '' error'' @
                    (if card (set (map (\<lambda>template. render template stderrColumns)
                                     (extractErrors state'))) = 1 then [] else ''s'') @
                    '' found'')]"
        unfolding o e by (rule exI [of _ before]) (rule refl)
    qed
    show "(code = 1 \<longleftrightarrow>
           installationFails schedule state \<or>
           (\<not> fullRestartRequested state' \<and> extractErrors state' \<noteq> [])) \<and>
        (code \<noteq> 1 \<longrightarrow> code = 0) \<and>
        distinct (errorStringsOf render stderrColumns state') \<and>
        set (errorStringsOf render stderrColumns state') =
          set (map (\<lambda>template. render template stderrColumns) (extractErrors state')) \<and>
        length (errorStringsOf render stderrColumns state') =
          card (set (map (\<lambda>template. render template stderrColumns) (extractErrors state'))) \<and>
        (\<not> installationFails schedule state \<and>
         \<not> fullRestartRequested state' \<and> extractErrors state' \<noteq> [] \<longrightarrow>
           (\<exists>before.
              ops = before @
                [ErrorLine [],
                 ErrorLine (join (errorStringsOf render stderrColumns state') (lineFeed @ lineFeed)),
                 ErrorLine [],
                 ErrorLine
                   ((if fancy then emojiError @ '' '' else []) @
                    bold (toString (int (card (set (map (\<lambda>template. render template stderrColumns)
                                                      (extractErrors state')))))) @
                    '' error'' @
                    (if card (set (map (\<lambda>template. render template stderrColumns)
                                     (extractErrors state'))) = 1 then [] else ''s'') @
                    '' found'')]))"
      by (rule conjI [OF code conjI [OF zero conjI [OF a(1) conjI [OF a(2) conjI [OF a(3) report]]]]])
  qed
  show ?thesis
    by (rule conjI [OF inst conjI [OF clean ends]])
qed


theorem compile_exit_code_and_deduplication_witness:
  "\<exists>state'.
     compile render_example (\<lambda>s. s) False False 80 schedule_example state_fresh
       = Some (state',
               [ErrorStatusLine (OutputPath ''/app/build/main.js'' ''build/main.js'')
                  OutputStatus.ElmMake,
                ErrorStatusLine (OutputPath ''/app/build/admin.js'' ''build/admin.js'')
                  OutputStatus.ElmMake,
                ErrorStatusLine (OutputPath ''/app/build/main.js'' ''build/main.js'')
                  (ElmMakeError (CompileErrors [(''/app/src/Shared.elm'', [''TYPE MISMATCH''])])),
                ErrorStatusLine (OutputPath ''/app/build/admin.js'' ''build/admin.js'')
                  (ElmMakeError (CompileErrors [(''/app/src/Shared.elm'', [''TYPE MISMATCH''])])),
                ErrorLine [],
                ErrorLine ''/app/src/Shared.elm: TYPE MISMATCH'',
                ErrorLine [],
                ErrorLine ''1 error found''],
               1) \<and>
     extractErrors state' =
       [renderProblem ''/app/src/Shared.elm'' ''TYPE MISMATCH'',
        renderProblem ''/app/src/Shared.elm'' ''TYPE MISMATCH''] \<and>
     length (errorStringsOf render_example 80 state') = 1 \<and>
     set (errorStringsOf render_example 80 state') = {''/app/src/Shared.elm: TYPE MISMATCH''}"
proof -
  have "\<exists>state'.
     compile render_example (\<lambda>s. s) False False 80 schedule_example state_fresh
       = Some (state',
               [ErrorStatusLine (OutputPath ''/app/build/main.js'' ''build/main.js'')
                  OutputStatus.ElmMake,
                ErrorStatusLine (OutputPath ''/app/build/admin.js'' ''build/admin.js'')
                  OutputStatus.ElmMake,
                ErrorStatusLine (OutputPath ''/app/build/main.js'' ''build/main.js'')
                  (ElmMakeError (CompileErrors [(''/app/src/Shared.elm'', [''TYPE MISMATCH''])])),
                ErrorStatusLine (OutputPath ''/app/build/admin.js'' ''build/admin.js'')
                  (ElmMakeError (CompileErrors [(''/app/src/Shared.elm'', [''TYPE MISMATCH''])])),
                ErrorLine [],
                ErrorLine ''/app/src/Shared.elm: TYPE MISMATCH'',
                ErrorLine [],
                ErrorLine ''1 error found''],
               1) \<and>
     extractErrors state' =
       [renderProblem ''/app/src/Shared.elm'' ''TYPE MISMATCH'',
        renderProblem ''/app/src/Shared.elm'' ''TYPE MISMATCH'']"
    by (simp add: compile_def schedule_example_def state_fresh_def state_example_def
      compileOutputState_example_def Let_def compile_afterInstall_def compile_afterInstallation_def
      someOutputIsDirty_def toCompile_def compile_round_def compile_startAll_def compile_event_def
      compile_start_def compile_afterElmMake_def setStatus_def setDirty_def updateStatusLine_def
      compile_end_def extractErrors_def errorStringsOf_def Array_from_Set_def render_example_def
      toString_def digitChar_def lineFeed_def)
  then obtain state' where
    r: "compile render_example (\<lambda>s. s) False False 80 schedule_example state_fresh
       = Some (state',
               [ErrorStatusLine (OutputPath ''/app/build/main.js'' ''build/main.js'')
                  OutputStatus.ElmMake,
                ErrorStatusLine (OutputPath ''/app/build/admin.js'' ''build/admin.js'')
                  OutputStatus.ElmMake,
                ErrorStatusLine (OutputPath ''/app/build/main.js'' ''build/main.js'')
                  (ElmMakeError (CompileErrors [(''/app/src/Shared.elm'', [''TYPE MISMATCH''])])),
                ErrorStatusLine (OutputPath ''/app/build/admin.js'' ''build/admin.js'')
                  (ElmMakeError (CompileErrors [(''/app/src/Shared.elm'', [''TYPE MISMATCH''])])),
                ErrorLine [],
                ErrorLine ''/app/src/Shared.elm: TYPE MISMATCH'',
                ErrorLine [],
                ErrorLine ''1 error found''],
               1)"
    and e: "extractErrors state' =
       [renderProblem ''/app/src/Shared.elm'' ''TYPE MISMATCH'',
        renderProblem ''/app/src/Shared.elm'' ''TYPE MISMATCH'']"
    by blast
  note t = compile_exit_code_and_deduplication
      [of schedule_example state_fresh render_example "\<lambda>s. s" False False 80]
  have l: "length (errorStringsOf render_example 80 state') =
        card (set (map (\<lambda>template. render_example template 80) (extractErrors state')))"
    using t r by blast
  have s: "set (errorStringsOf render_example 80 state') =
        set (map (\<lambda>template. render_example template 80) (extractErrors state'))"
    using t r by blast
  have l1: "length (errorStringsOf render_example 80 state') = 1"
    unfolding l e by (simp add: render_example_def)
  have s1: "set (errorStringsOf render_example 80 state') = {''/app/src/Shared.elm: TYPE MISMATCH''}"
    unfolding s e by (simp add: render_example_def)
  show ?thesis using r e l1 s1 by blast
qed

text \<open>
  C7 as stated fails: when the installation of the dependencies fails, \<open>compile\<close>
  returns 1 although no error was extracted: \<open>extractErrors\<close> is not called, and it
  would find no error in that state.  The run writes the error of the installation and no
  line \<open>N errors found\<close>.
\<close>

theorem compile_install_failure_counterexample:
  "compile render_example (\<lambda>s. s) False False 80 schedule_install_fails state_fresh
     = Some (state_fresh,
             [ErrorLine ''Dependencies: error'',
              ErrorLine [],
              ErrorTemplateLine (creatingDummyFailed ''/app/elm.json'' ''EACCES'')],
             1) \<and>
   extractErrors state_fresh = []"
  by (simp add: compile_def schedule_install_fails_def Let_def dependenciesMessage_def
      extractErrors_def state_fresh_def state_example_def compileOutputState_example_def)

end
